theory Spec2Isabelle
  imports Complex_Main "HOL-Library.Word"
begin

unbundle bit_operations_syntax

section \<open>Conventions of the embedding\<close>

text \<open>
  The Go sources are embedded function by function, under their own names.
  \<^item> In the game engines and the candle code \<^verbatim>\<open>float64\<close> values are real numbers: rounding,
    infinities and NaN are not modelled there. The properties of these parts use order,
    \<open>max\<close>, \<open>min\<close> and exact products only.
  \<^item> In the cashout handler \<^verbatim>\<open>float64\<close> is the type \<open>float64\<close> below, with rounding to
    nearest, overflow to the infinities, NaN and the negative zero.
  \<^item> \<^verbatim>\<open>int64\<close> values (timestamps, durations) are \<open>64 word\<close>, compared as signed.
  \<^item> \<^verbatim>\<open>int\<close> loop counters that stay far below \<open>2 ^ 63\<close> are \<open>nat\<close>.
  \<^item> A \<^verbatim>\<open>*rand.Rand\<close> is an address into an explicit heap of generator objects.
\<close>

section \<open>Candles (package game, types)\<close>

text \<open>
  The field \<^verbatim>\<open>Close *float64\<close> is a pointer. The crash loop stores three kinds of
  pointer in it: \<^verbatim>\<open>nil\<close>, the address of its local variable \<^verbatim>\<open>price\<close>, and the address
  of a fresh local that is written once (\<^verbatim>\<open>finalCloseValue\<close>).
\<close>

datatype float_ptr = Nil | AddrPrice | AddrConst real

text \<open>Reading through the pointer, given what \<^verbatim>\<open>price\<close> holds now; \<^verbatim>\<open>nil\<close> panics.\<close>

fun deref :: "real \<Rightarrow> float_ptr \<Rightarrow> real option" where
  "deref price Nil = None"
| "deref price AddrPrice = Some price"
| "deref price (AddrConst v) = Some v"

record CandleGroup =
  Open :: real
  Close :: float_ptr
  Max_f :: real
  Min_f :: real
  ValueList :: "real list"
  StartTime :: "64 word"
  DurationMs :: "64 word"
  IsComplete :: bool

section \<open>mergeGroups (ws/server.go)\<close>

definition InitialGroupDurationMs :: "64 word" where
  "InitialGroupDurationMs = 5000"

definition MergeThreshold :: nat where
  "MergeThreshold = 30"

text \<open>The candle built in the body of the pair loop.\<close>

definition merged :: "CandleGroup \<Rightarrow> CandleGroup \<Rightarrow> CandleGroup" where
  "merged g1 g2 =
     \<lparr> Open = Open g1,
       Close = Close g2,
       Max_f = max (Max_f g1) (Max_f g2),
       Min_f = min (Min_f g1) (Min_f g2),
       ValueList = ValueList g1 @ ValueList g2,
       StartTime = StartTime g1,
       DurationMs = DurationMs g1 * 2,
       IsComplete = True \<rparr>"

text \<open>The deep copy of the odd trailing candle.\<close>

definition lastGroupCopy :: "CandleGroup \<Rightarrow> CandleGroup" where
  "lastGroupCopy lastGroup =
     \<lparr> Open = Open lastGroup,
       Close = Close lastGroup,
       Max_f = Max_f lastGroup,
       Min_f = Min_f lastGroup,
       ValueList = ValueList lastGroup,
       StartTime = StartTime lastGroup,
       DurationMs = DurationMs lastGroup,
       IsComplete = IsComplete lastGroup \<rparr>"

text \<open>
  \<^verbatim>\<open>for i := 0; i < len(groups)-1; i += 2\<close>. The bound is computed on integers:
  for the empty slice it is \<open>-1\<close> and the loop does not run.
\<close>

function mergeLoop :: "CandleGroup list \<Rightarrow> nat \<Rightarrow> CandleGroup list \<Rightarrow> CandleGroup list" where
  "mergeLoop groups i newGroups =
     (if int i < int (length groups) - 1
      then mergeLoop groups (i + 2) (newGroups @ [merged (groups ! i) (groups ! (i + 1))])
      else newGroups)"
  by pat_completeness auto
termination
  by (relation "measure (\<lambda>(groups, i, newGroups). length groups - i)") auto

definition mergeGroups :: "CandleGroup list \<Rightarrow> 64 word \<Rightarrow> CandleGroup list \<times> 64 word" where
  "mergeGroups groups currentDuration =
     (let newGroups = mergeLoop groups 0 [];
          newGroups = (if length groups mod 2 = 1
                       then newGroups @ [lastGroupCopy (groups ! (length groups - 1))]
                       else newGroups);
          newDuration = currentDuration * 2
      in (newGroups, newDuration))"

section \<open>Crash game history (ws/crash\_unified.go)\<close>

record CrashGameHistory =
  H_GameID :: string
  H_PeakMultiplier :: real
  H_Rugged :: bool
  H_Candles :: "CandleGroup list"
  H_Timestamp :: "64 word"

definition MaxGameHistory :: nat where
  "MaxGameHistory = 10"

text \<open>
  The append at the end of a game: \<^verbatim>\<open>append\<close>, then keep the last
  \<^verbatim>\<open>MaxGameHistory\<close> entries when there are more.
\<close>

definition addToHistory :: "CrashGameHistory list \<Rightarrow> CrashGameHistory \<Rightarrow> CrashGameHistory list" where
  "addToHistory crashGameHistory g =
     (let h = crashGameHistory @ [g]
      in if length h > MaxGameHistory then drop (length h - MaxGameHistory) h else h)"

text \<open>The history after the games \<open>gs\<close> have ended one after the other.\<close>

definition historyAfter :: "CrashGameHistory list \<Rightarrow> CrashGameHistory list" where
  "historyAfter gs = foldl addToHistory [] gs"

section \<open>Seeded generator (game/prng.go)\<close>

text \<open>
  \<^verbatim>\<open>NewSeededRNG\<close> calls two library functions that are not part of the repository:
  \<^verbatim>\<open>sha256.Sum256\<close> and the generator of \<^verbatim>\<open>math/rand\<close>. They are parameters of the
  model: \<open>sha256_sum\<close> is the digest (32 bytes) of a string, and \<open>float_at seed n\<close> is the
  value of the \<open>n\<close>-th call of \<^verbatim>\<open>Float64\<close> on \<^verbatim>\<open>rand.New(rand.NewSource(seed))\<close>.
\<close>

record lib =
  sha256_sum :: "string \<Rightarrow> 8 word list"
  float_at :: "64 word \<Rightarrow> nat \<Rightarrow> real"

text \<open>
  A generator object: the seed of its source and the number of values drawn so far.
  The heap holds the generator objects; a \<^verbatim>\<open>*rand.Rand\<close> is an index into it, and
  allocation appends.
\<close>

record Rand =
  src_seed :: "64 word"
  drawn :: nat

type_synonym heap = "Rand list"

text \<open>\<^verbatim>\<open>binary.BigEndian.Uint64\<close>: the first byte is the most significant.\<close>

definition BigEndian_Uint64 :: "8 word list \<Rightarrow> 64 word" where
  "BigEndian_Uint64 b =
     ucast (b ! 7) OR push_bit 8 (ucast (b ! 6)) OR push_bit 16 (ucast (b ! 5))
     OR push_bit 24 (ucast (b ! 4)) OR push_bit 32 (ucast (b ! 3))
     OR push_bit 40 (ucast (b ! 2)) OR push_bit 48 (ucast (b ! 1))
     OR push_bit 56 (ucast (b ! 0))"

definition NewSeededRNG :: "lib \<Rightarrow> string \<Rightarrow> heap \<Rightarrow> nat \<times> heap" where
  "NewSeededRNG L seed h =
     (let hash = sha256_sum L seed;
          seedInt = BigEndian_Uint64 (take 8 hash)
      in (length h, h @ [\<lparr> src_seed = seedInt, drawn = 0 \<rparr>]))"

text \<open>\<^verbatim>\<open>rng.Float64()\<close>: the next value of the object at \<open>rng\<close>, which advances.\<close>

definition Float64 :: "lib \<Rightarrow> nat \<Rightarrow> heap \<Rightarrow> real \<times> heap" where
  "Float64 L rng h =
     (float_at L (src_seed (h ! rng)) (drawn (h ! rng)),
      h[rng := (h ! rng)\<lparr> drawn := drawn (h ! rng) + 1 \<rparr>])"

text \<open>How a loop body ends: \<^verbatim>\<open>break\<close>, or on to the next iteration.\<close>

datatype 'a flow = Break 'a | Continue 'a

section \<open>Constants of the crash engine (package game)\<close>

text \<open>These constants have the same values in every version of the engine file.\<close>

definition StartingPrice :: real where "StartingPrice = 1.0"
definition MaxTicks :: nat where "MaxTicks = 5000"
definition RugProb :: real where "RugProb = 0.01"
definition GodCandleChance :: real where "GodCandleChance = 0.002"
definition GodCandleMult :: real where "GodCandleMult = 2.5"
definition BigMoveChance :: real where "BigMoveChance = 0.12"
definition BigMoveMin :: real where "BigMoveMin = 0.08"
definition BigMoveMax :: real where "BigMoveMax = 0.50"
definition DriftMin :: real where "DriftMin = - 0.04"
definition DriftMax :: real where "DriftMax = 0.04"

section \<open>Crash engine with a peak from a sub-seed (engine file, version with GeneratePeakMultiplier)\<close>

definition RugProbBeforePeak :: real where "RugProbBeforePeak = 0.0001"
definition RugProbAfterPeak :: real where "RugProbAfterPeak = 0.10"
definition PeakVeryLow :: real where "PeakVeryLow = 0.50"
definition PeakLow :: real where "PeakLow = 0.85"
definition PeakMedium :: real where "PeakMedium = 0.95"
definition PeakHigh :: real where "PeakHigh = 0.99"
definition PeakExtreme :: real where "PeakExtreme = 1.00"
definition PeakMin :: real where "PeakMin = 1.0"
definition PeakVeryLowMax :: real where "PeakVeryLowMax = 1.5"
definition PeakLowMax :: real where "PeakLowMax = 3.0"
definition PeakMediumMax :: real where "PeakMediumMax = 10.0"
definition PeakHighMax :: real where "PeakHighMax = 50.0"
definition PeakExtremeMax :: real where "PeakExtremeMax = 200.0"

definition GeneratePeakMultiplier :: "lib \<Rightarrow> string \<Rightarrow> string \<Rightarrow> heap \<Rightarrow> real \<times> heap" where
  "GeneratePeakMultiplier L serverSeed gameID h =
     (let combined = serverSeed @ ''-'' @ gameID @ ''-peak'';
          (rng, h) = NewSeededRNG L combined h;
          (randValue, h) = Float64 L rng h;
          peak =
            (if randValue < PeakVeryLow then
               (let normalized = randValue / PeakVeryLow
                in PeakMin + normalized * (PeakVeryLowMax - PeakMin))
             else if randValue < PeakLow then
               (let normalized = (randValue - PeakVeryLow) / (PeakLow - PeakVeryLow)
                in PeakVeryLowMax + normalized * (PeakLowMax - PeakVeryLowMax))
             else if randValue < PeakMedium then
               (let normalized = (randValue - PeakLow) / (PeakMedium - PeakLow)
                in PeakLowMax + normalized * (PeakMediumMax - PeakLowMax))
             else if randValue < PeakHigh then
               (let normalized = (randValue - PeakMedium) / (PeakHigh - PeakMedium)
                in PeakMediumMax + normalized * (PeakHighMax - PeakMediumMax))
             else
               (let normalized = (randValue - PeakHigh) / (PeakExtreme - PeakHigh)
                in PeakHighMax + normalized * (PeakExtremeMax - PeakHighMax)));
          peak = (if peak < PeakMin then PeakMin else peak)
      in (peak, h))"

text \<open>
  The result type of this version (package game, types) has no \<^verbatim>\<open>Rugged\<close> field.
\<close>

record GameResultP =
  PeakMultiplierP :: real
  FinalPriceP :: real
  TotalTicksP :: nat
  ServerSeedP :: string
  GameIDP :: string

text \<open>The local variables of the loop of \<^verbatim>\<open>CalculateGame\<close>.\<close>

record varsP =
  priceP :: real
  peakP :: real
  tickP :: nat
  momentumP :: real
  reachedPredeterminedPeak :: bool

text \<open>
  The rug check at the head of an iteration. The draw is made only when \<open>tick > 20\<close>:
  \<^verbatim>\<open>&&\<close> evaluates its right operand only then.
\<close>

definition rugCheckP :: "lib \<Rightarrow> nat \<Rightarrow> varsP \<Rightarrow> heap \<Rightarrow> bool \<times> heap" where
  "rugCheckP L rng v h =
     (let rugProb = (if reachedPredeterminedPeak v then RugProbAfterPeak else RugProbBeforePeak)
      in if tickP v > 20
         then (let (r, h) = Float64 L rng h in (r < rugProb, h))
         else (False, h))"

text \<open>The body of the god-candle branch, up to \<^verbatim>\<open>tick++; continue\<close>.\<close>

definition godCandleP :: "lib \<Rightarrow> nat \<Rightarrow> varsP \<Rightarrow> heap \<Rightarrow> varsP \<times> heap" where
  "godCandleP L rng v h =
     (let directionThreshold = (if reachedPredeterminedPeak v then 0.4 else 0.6);
          (d, h) = Float64 L rng h;
          godCandleChange = (if d < directionThreshold then - GodCandleMult else GodCandleMult);
          v = (if godCandleChange > 0
               then v\<lparr> priceP := priceP v * godCandleChange \<rparr>
               else v\<lparr> priceP := priceP v / (- godCandleChange) \<rparr>);
          v = (if priceP v > peakP v then v\<lparr> peakP := priceP v \<rparr> else v)
      in (v\<lparr> tickP := tickP v + 1 \<rparr>, h))"

text \<open>The value of \<^verbatim>\<open>change\<close>: a big move with a directional bias, or drift and noise.\<close>

definition changeP :: "lib \<Rightarrow> nat \<Rightarrow> varsP \<Rightarrow> heap \<Rightarrow> real \<times> heap" where
  "changeP L rng v h =
     (let (b, h) = Float64 L rng h
      in if b < BigMoveChance then
           (let (m, h) = Float64 L rng h;
                move = BigMoveMin + m * (BigMoveMax - BigMoveMin);
                upwardThreshold = (if reachedPredeterminedPeak v then 0.4 else 0.6);
                (u, h) = Float64 L rng h
            in (if u < upwardThreshold then move else - move, h))
         else
           (let (x, h) = Float64 L rng h;
                drift = DriftMin + x * (DriftMax - DriftMin);
                volatility = 0.015 * min 15 (sqrt (priceP v));
                (y, h) = Float64 L rng h;
                noise = volatility * (2 * y - 1)
            in (drift + noise, h)))"

text \<open>The end of an ordinary iteration: the price moves, with a floor of \<open>0.5\<close> and no cap.\<close>

definition applyChangeP :: "varsP \<Rightarrow> real \<Rightarrow> varsP" where
  "applyChangeP v change =
     (let v = v\<lparr> priceP := priceP v * (1 + change) \<rparr>;
          v = (if priceP v < 0.5 then v\<lparr> priceP := 0.5 \<rparr> else v);
          v = (if priceP v > peakP v then v\<lparr> peakP := priceP v \<rparr> else v);
          v = v\<lparr> momentumP := momentumP v * 0.9 + change * 0.1 \<rparr>
      in v\<lparr> tickP := tickP v + 1 \<rparr>)"

text \<open>One iteration of \<^verbatim>\<open>for tick < 10000\<close>. The god-candle draw is always made.\<close>

definition tickP_body :: "lib \<Rightarrow> nat \<Rightarrow> real \<Rightarrow> varsP \<Rightarrow> heap \<Rightarrow> (varsP \<times> heap) flow" where
  "tickP_body L rng peakMultiplier v h =
     (let (rug, h) = rugCheckP L rng v h
      in if rug then Break (v, h)
         else
           (let v = (if priceP v \<ge> peakMultiplier
                     then v\<lparr> reachedPredeterminedPeak := True \<rparr> else v);
                (g, h) = Float64 L rng h
            in if g < GodCandleChance \<and> priceP v \<le> 100
               then Continue (godCandleP L rng v h)
               else (let (change, h) = changeP L rng v h
                     in Continue (applyChangeP v change, h))))"

lemma tickP_body_tick:
  "tickP_body L rng pk v h = Continue (v', h') \<Longrightarrow> tickP v' = tickP v + 1"
proof -
  have "case tickP_body L rng pk v h of
          Break x \<Rightarrow> True | Continue x \<Rightarrow> tickP (fst x) = tickP v + 1"
    by (simp add: tickP_body_def godCandleP_def applyChangeP_def Let_def split_def)
  then show "tickP_body L rng pk v h = Continue (v', h') \<Longrightarrow> tickP v' = tickP v + 1"
    by simp
qed

function loopP :: "lib \<Rightarrow> nat \<Rightarrow> real \<Rightarrow> varsP \<Rightarrow> heap \<Rightarrow> varsP \<times> heap" where
  "loopP L rng peakMultiplier v h =
     (if tickP v < 10000 then
        (case tickP_body L rng peakMultiplier v h of
           Break (v', h') \<Rightarrow> (v', h')
         | Continue (v', h') \<Rightarrow> loopP L rng peakMultiplier v' h')
      else (v, h))"
  by pat_completeness auto
termination
  by (relation "measure (\<lambda>(L, rng, pk, v, h). 10000 - tickP v)")
     (auto dest: tickP_body_tick)

declare loopP.simps [simp del]

definition CalculateGameP :: "lib \<Rightarrow> string \<Rightarrow> string \<Rightarrow> heap \<Rightarrow> GameResultP \<times> heap" where
  "CalculateGameP L serverSeed gameID h =
     (let (peakMultiplier, h) = GeneratePeakMultiplier L serverSeed gameID h;
          combined = serverSeed @ ''-'' @ gameID;
          (rng, h) = NewSeededRNG L combined h;
          v = \<lparr> priceP = StartingPrice, peakP = StartingPrice, tickP = 0, momentumP = 0.0,
                reachedPredeterminedPeak = False \<rparr>;
          (v, h) = loopP L rng peakMultiplier v h
      in (\<lparr> PeakMultiplierP = peakMultiplier, FinalPriceP = priceP v, TotalTicksP = tickP v,
            ServerSeedP = serverSeed, GameIDP = gameID \<rparr>, h))"

section \<open>Crash engine (game/engine.go)\<close>

text \<open>
  The result type of the versions that report the rug (its declaration is in another
  version of the types file): peak, final price, rugged flag, tick count.
\<close>

record GameResult =
  PeakMultiplier :: real
  FinalPrice :: real
  Rugged :: bool
  TotalTicks :: nat

record varsE =
  priceE :: real
  peakE :: real
  tickE :: nat
  ruggedE :: bool
  momentumE :: real

text \<open>
  The rug check with its dynamic probability. No draw is made during the first ticks:
  \<^verbatim>\<open>tick > 50 && rng.Float64() < rugProb\<close>.
\<close>

definition rugProbE :: "varsE \<Rightarrow> real" where
  "rugProbE v =
     (if momentumE v > 0.05 then RugProb * 0.05
      else if momentumE v < - 0.02 then RugProb * 0.2
      else RugProb)"

definition rugCheckE :: "lib \<Rightarrow> nat \<Rightarrow> varsE \<Rightarrow> heap \<Rightarrow> bool \<times> heap" where
  "rugCheckE L rng v h =
     (if tickE v > 50
      then (let (r, h) = Float64 L rng h in (r < rugProbE v, h))
      else (False, h))"

text \<open>The value of \<^verbatim>\<open>change\<close>: a big move of either sign, or drift and noise.\<close>

definition changeE :: "lib \<Rightarrow> nat \<Rightarrow> real \<Rightarrow> heap \<Rightarrow> real \<times> heap" where
  "changeE L rng price h =
     (let (b, h) = Float64 L rng h
      in if b < BigMoveChance then
           (let (m, h) = Float64 L rng h;
                move = BigMoveMin + m * (BigMoveMax - BigMoveMin);
                (u, h) = Float64 L rng h
            in (if u > 0.5 then move else - move, h))
         else
           (let (x, h) = Float64 L rng h;
                drift = DriftMin + x * (DriftMax - DriftMin);
                volatility = 0.015 * min 15 (sqrt price);
                (y, h) = Float64 L rng h;
                noise = volatility * (2 * y - 1)
            in (drift + noise, h)))"

definition godCandleE :: "varsE \<Rightarrow> varsE" where
  "godCandleE v =
     (let v = v\<lparr> priceE := priceE v * GodCandleMult \<rparr>;
          v = (if priceE v > peakE v then v\<lparr> peakE := priceE v \<rparr> else v)
      in v\<lparr> tickE := tickE v + 1 \<rparr>)"

definition applyChangeE :: "varsE \<Rightarrow> real \<Rightarrow> varsE" where
  "applyChangeE v change =
     (let v = v\<lparr> priceE := priceE v * (1 + change) \<rparr>;
          v = (if priceE v < 0 then v\<lparr> priceE := 0 \<rparr> else v);
          v = (if priceE v > peakE v then v\<lparr> peakE := priceE v \<rparr> else v);
          v = v\<lparr> momentumE := momentumE v * 0.9 + change * 0.1 \<rparr>
      in v\<lparr> tickE := tickE v + 1 \<rparr>)"

text \<open>One iteration of \<^verbatim>\<open>for tick < MaxTicks\<close>.\<close>

definition tickE_body :: "lib \<Rightarrow> nat \<Rightarrow> varsE \<Rightarrow> heap \<Rightarrow> (varsE \<times> heap) flow" where
  "tickE_body L rng v h =
     (let (rug, h) = rugCheckE L rng v h
      in if rug then Break (v\<lparr> ruggedE := True \<rparr>, h)
         else
           (let (g, h) = Float64 L rng h
            in if g < GodCandleChance \<and> priceE v \<le> 100
               then Continue (godCandleE v, h)
               else (let (change, h) = changeE L rng (priceE v) h
                     in Continue (applyChangeE v change, h))))"

lemma tickE_body_tick:
  "tickE_body L rng v h = Continue (v', h') \<Longrightarrow> tickE v' = tickE v + 1"
proof -
  have "case tickE_body L rng v h of
          Break x \<Rightarrow> True | Continue x \<Rightarrow> tickE (fst x) = tickE v + 1"
    by (simp add: tickE_body_def godCandleE_def applyChangeE_def Let_def split_def)
  then show "tickE_body L rng v h = Continue (v', h') \<Longrightarrow> tickE v' = tickE v + 1"
    by simp
qed

function loopE :: "lib \<Rightarrow> nat \<Rightarrow> varsE \<Rightarrow> heap \<Rightarrow> varsE \<times> heap" where
  "loopE L rng v h =
     (if tickE v < MaxTicks then
        (case tickE_body L rng v h of
           Break (v', h') \<Rightarrow> (v', h')
         | Continue (v', h') \<Rightarrow> loopE L rng v' h')
      else (v, h))"
  by pat_completeness auto
termination
  by (relation "measure (\<lambda>(L, rng, v, h). MaxTicks - tickE v)")
     (auto dest: tickE_body_tick)

declare loopE.simps [simp del]

definition CalculateGame :: "lib \<Rightarrow> string \<Rightarrow> string \<Rightarrow> heap \<Rightarrow> GameResult \<times> heap" where
  "CalculateGame L serverSeed gameID h =
     (let combined = serverSeed @ ''-'' @ gameID;
          (rng, h) = NewSeededRNG L combined h;
          v = \<lparr> priceE = StartingPrice, peakE = StartingPrice, tickE = 0, ruggedE = False,
                momentumE = 0.0 \<rparr>;
          (v, h) = loopE L rng v h
      in (\<lparr> PeakMultiplier = peakE v, FinalPrice = priceE v, Rugged = ruggedE v,
            TotalTicks = tickE v \<rparr>, h))"

section \<open>Crash engine with a target peak and a hard cap (engine file, version with determineTargetPeak)\<close>

definition determineTargetPeak :: "lib \<Rightarrow> nat \<Rightarrow> heap \<Rightarrow> real \<times> heap" where
  "determineTargetPeak L rng h =
     (let (r, h) = Float64 L rng h
      in if r < 0.40 then (let (x, h) = Float64 L rng h in (1.0 + x * 0.5, h))
         else if r < 0.70 then (let (x, h) = Float64 L rng h in (1.5 + x * 1.5, h))
         else if r < 0.88 then (let (x, h) = Float64 L rng h in (3.0 + x * 7.0, h))
         else if r < 0.97 then (let (x, h) = Float64 L rng h in (10.0 + x * 40.0, h))
         else (let (x, h) = Float64 L rng h in (50.0 + x * 150.0, h)))"

text \<open>
  The local variables of this \<^verbatim>\<open>CalculateGame\<close>. \<open>seenT\<close> is a history variable that
  the Go code does not have: the value of \<^verbatim>\<open>price\<close> at the end of every iteration,
  oldest first. Nothing is computed from it.
\<close>

record varsT =
  priceT :: real
  tickT :: nat
  ruggedT :: bool
  peakReachedT :: bool
  seenT :: "real list"

text \<open>Phase 1: the value of \<^verbatim>\<open>change\<close>, never negative for draws in \<open>[0, 1)\<close>.\<close>

definition growthChange :: "lib \<Rightarrow> nat \<Rightarrow> real \<Rightarrow> heap \<Rightarrow> real \<times> heap" where
  "growthChange L rng price h =
     (let (g, h) = Float64 L rng h
      in if g < GodCandleChance \<and> price \<le> 100 then (GodCandleMult - 1.0, h)
         else
           (let (b, h) = Float64 L rng h
            in if b < BigMoveChance then
                 (let (m, h) = Float64 L rng h;
                      move = BigMoveMin + m * (BigMoveMax - BigMoveMin)
                  in (move, h))
               else
                 (let (x, h) = Float64 L rng h;
                      drift = x * DriftMax;
                      volatility = 0.015 * min 15 (sqrt price);
                      (y, h) = Float64 L rng h;
                      noise = volatility * y
                  in (drift + noise, h))))"

text \<open>One iteration of \<^verbatim>\<open>for tick < MaxTicks && !peakReached\<close>.\<close>

definition growthTick :: "lib \<Rightarrow> nat \<Rightarrow> real \<Rightarrow> varsT \<Rightarrow> heap \<Rightarrow> varsT \<times> heap" where
  "growthTick L rng targetPeak v h =
     (let (change, h) = growthChange L rng (priceT v) h;
          v = v\<lparr> priceT := priceT v * (1 + change) \<rparr>;
          v = (if priceT v \<ge> targetPeak
               then v\<lparr> priceT := targetPeak, peakReachedT := True \<rparr> else v)
      in (v\<lparr> tickT := tickT v + 1, seenT := seenT v @ [priceT v] \<rparr>, h))"

lemma growthTick_tick: "tickT (fst (growthTick L rng pk v h)) = tickT v + 1"
  by (simp add: growthTick_def Let_def split_def)

function growthLoop :: "lib \<Rightarrow> nat \<Rightarrow> real \<Rightarrow> varsT \<Rightarrow> heap \<Rightarrow> varsT \<times> heap" where
  "growthLoop L rng targetPeak v h =
     (if tickT v < MaxTicks \<and> \<not> peakReachedT v
      then (case growthTick L rng targetPeak v h of
              (v', h') \<Rightarrow> growthLoop L rng targetPeak v' h')
      else (v, h))"
  by pat_completeness auto
termination
  by (relation "measure (\<lambda>(L, rng, pk, v, h). MaxTicks - tickT v)")
     (auto simp: split_def growthTick_tick)

declare growthLoop.simps [simp del]

text \<open>Phase 2: the value of \<^verbatim>\<open>change\<close>, of either sign.\<close>

definition declineChange :: "lib \<Rightarrow> nat \<Rightarrow> real \<Rightarrow> heap \<Rightarrow> real \<times> heap" where
  "declineChange L rng price h =
     (let (b, h) = Float64 L rng h
      in if b < BigMoveChance then
           (let (m, h) = Float64 L rng h;
                move = BigMoveMin + m * (BigMoveMax - BigMoveMin);
                (u, h) = Float64 L rng h
            in (if u > 0.5 then move else - move, h))
         else
           (let (x, h) = Float64 L rng h;
                drift = DriftMin + x * (DriftMax - DriftMin);
                volatility = 0.015 * min 15 (sqrt price);
                (y, h) = Float64 L rng h;
                noise = volatility * (2 * y - 1)
            in (drift + noise, h)))"

text \<open>
  One iteration of the second \<^verbatim>\<open>for tick < MaxTicks\<close>: the rug check (a draw at every
  tick), then the move, the floor at \<open>0\<close> and the hard cap at the target peak.
\<close>

definition declineTick :: "lib \<Rightarrow> nat \<Rightarrow> real \<Rightarrow> varsT \<Rightarrow> heap \<Rightarrow> (varsT \<times> heap) flow" where
  "declineTick L rng targetPeak v h =
     (let (r, h) = Float64 L rng h
      in if r < RugProb then Break (v\<lparr> ruggedT := True \<rparr>, h)
         else
           (let (change, h) = declineChange L rng (priceT v) h;
                v = v\<lparr> priceT := priceT v * (1 + change) \<rparr>;
                v = (if priceT v < 0 then v\<lparr> priceT := 0 \<rparr> else v);
                v = (if priceT v > targetPeak then v\<lparr> priceT := targetPeak \<rparr> else v)
            in Continue (v\<lparr> tickT := tickT v + 1, seenT := seenT v @ [priceT v] \<rparr>, h)))"

lemma declineTick_tick:
  "declineTick L rng pk v h = Continue (v', h') \<Longrightarrow> tickT v' = tickT v + 1"
proof -
  have "case declineTick L rng pk v h of
          Break x \<Rightarrow> True | Continue x \<Rightarrow> tickT (fst x) = tickT v + 1"
    by (simp add: declineTick_def Let_def split_def)
  then show "declineTick L rng pk v h = Continue (v', h') \<Longrightarrow> tickT v' = tickT v + 1"
    by simp
qed

function declineLoop :: "lib \<Rightarrow> nat \<Rightarrow> real \<Rightarrow> varsT \<Rightarrow> heap \<Rightarrow> varsT \<times> heap" where
  "declineLoop L rng targetPeak v h =
     (if tickT v < MaxTicks then
        (case declineTick L rng targetPeak v h of
           Break (v', h') \<Rightarrow> (v', h')
         | Continue (v', h') \<Rightarrow> declineLoop L rng targetPeak v' h')
      else (v, h))"
  by pat_completeness auto
termination
  by (relation "measure (\<lambda>(L, rng, pk, v, h). MaxTicks - tickT v)")
     (auto dest: declineTick_tick)

declare declineLoop.simps [simp del]

text \<open>
  The whole simulation: the local variables and the target peak at the \<^verbatim>\<open>return\<close>,
  then the result that \<^verbatim>\<open>CalculateGame\<close> builds from them.
\<close>

definition simulateT :: "lib \<Rightarrow> string \<Rightarrow> string \<Rightarrow> heap \<Rightarrow> (real \<times> varsT) \<times> heap" where
  "simulateT L serverSeed gameID h =
     (let combined = serverSeed @ ''-'' @ gameID;
          (rng, h) = NewSeededRNG L combined h;
          (targetPeak, h) = determineTargetPeak L rng h;
          v = \<lparr> priceT = StartingPrice, tickT = 0, ruggedT = False,
                peakReachedT = (StartingPrice \<ge> targetPeak), seenT = [] \<rparr>;
          (v, h) = (if \<not> peakReachedT v then growthLoop L rng targetPeak v h else (v, h));
          (v, h) = declineLoop L rng targetPeak v h
      in ((targetPeak, v), h))"

definition CalculateGameT :: "lib \<Rightarrow> string \<Rightarrow> string \<Rightarrow> heap \<Rightarrow> GameResult \<times> heap" where
  "CalculateGameT L serverSeed gameID h =
     (let ((targetPeak, v), h) = simulateT L serverSeed gameID h
      in (\<lparr> PeakMultiplier = targetPeak, FinalPrice = priceT v, Rugged = ruggedT v,
            TotalTicks = tickT v \<rparr>, h))"

section \<open>The peak verifier (game/verify.go)\<close>

definition VerifyGamePeak :: "lib \<Rightarrow> string \<Rightarrow> string \<Rightarrow> heap \<Rightarrow> real \<times> heap" where
  "VerifyGamePeak L serverSeed gameID h =
     (let combined = serverSeed @ ''-'' @ gameID;
          (rng, h) = NewSeededRNG L combined h
      in determineTargetPeak L rng h)"

section \<open>The crash game of runCrashGameLoop (ws/crash\_unified.go)\<close>

text \<open>
  One pass of the outer \<^verbatim>\<open>for\<close> of \<^verbatim>\<open>runCrashGameLoop\<close>, from \<^verbatim>\<open>// Run game simulation\<close>
  to \<^verbatim>\<open>// Complete final group\<close>: the simulation and the candle grouping. The
  broadcasts, the sleeps and the database and contract calls are left out. The clock is
  an input: \<open>clock t\<close> is what \<^verbatim>\<open>time.Now().UnixMilli()\<close> returns in the iteration with
  \<^verbatim>\<open>tick = t\<close>, and \<open>start\<close> what it returns before the loop.
\<close>

record varsW =
  priceW :: real
  peakW :: real
  tickW :: nat
  ruggedW :: bool
  groupsW :: "CandleGroup list"
  currentGroupW :: "CandleGroup option"
  groupDurationW :: "64 word"
  groupStartTimeW :: "64 word"

text \<open>An iteration ends in \<^verbatim>\<open>break\<close>, goes on, or panics on a \<^verbatim>\<open>nil\<close> pointer.\<close>

datatype 'a outcome = Stop 'a | Next 'a | NilPanic

definition changeW :: "lib \<Rightarrow> nat \<Rightarrow> real \<Rightarrow> heap \<Rightarrow> real \<times> heap" where
  "changeW L rng price h =
     (let (b, h) = Float64 L rng h
      in if b < BigMoveChance then
           (let (m, h) = Float64 L rng h;
                move = BigMoveMin + m * (BigMoveMax - BigMoveMin);
                (u, h) = Float64 L rng h
            in (if u > 0.5 then move else - move, h))
         else
           (let (x, h) = Float64 L rng h;
                drift = DriftMin + x * (DriftMax - DriftMin);
                volatility = 0.005 * min 10 (sqrt price);
                (y, h) = Float64 L rng h;
                noise = volatility * (2 * y - 1)
            in (drift + noise, h)))"

text \<open>The price of the tick: a god candle, or the move with a floor at \<open>0\<close>.\<close>

definition movePriceW :: "lib \<Rightarrow> nat \<Rightarrow> real \<Rightarrow> heap \<Rightarrow> real \<times> heap" where
  "movePriceW L rng price h =
     (let (g, h) = Float64 L rng h
      in if g < GodCandleChance \<and> price \<le> 100 then (price * GodCandleMult, h)
         else
           (let (change, h) = changeW L rng price h;
                price = price * (1 + change);
                price = (if price < 0 then 0 else price)
            in (price, h)))"

text \<open>A fresh current group: every field from the price of this tick, \<^verbatim>\<open>Close: &price\<close>.\<close>

definition newGroup :: "real \<Rightarrow> 64 word \<Rightarrow> 64 word \<Rightarrow> CandleGroup" where
  "newGroup price now groupDuration =
     \<lparr> Open = price, Close = AddrPrice, Max_f = price, Min_f = price, ValueList = [price],
       StartTime = now, DurationMs = groupDuration, IsComplete = False \<rparr>"

text \<open>The copy of a group that is appended to \<^verbatim>\<open>groups\<close>, with its close value.\<close>

definition frozen :: "CandleGroup \<Rightarrow> real \<Rightarrow> CandleGroup" where
  "frozen g finalCloseValue =
     \<lparr> Open = Open g, Close = AddrConst finalCloseValue, Max_f = Max_f g, Min_f = Min_f g,
       ValueList = [], StartTime = StartTime g, DurationMs = DurationMs g,
       IsComplete = True \<rparr>"

text \<open>
  \<^verbatim>\<open>// Candle grouping logic\<close>, run after \<^verbatim>\<open>price\<close> has been assigned the price of the
  tick. \<^verbatim>\<open>*currentGroup.Close\<close> reads through the stored pointer at this moment.
\<close>

definition candleGrouping :: "64 word \<Rightarrow> varsW \<Rightarrow> varsW option" where
  "candleGrouping now v =
     (case currentGroupW v of
        None \<Rightarrow>
          Some (v\<lparr> currentGroupW := Some (newGroup (priceW v) now (groupDurationW v)),
                  groupStartTimeW := now \<rparr>)
      | Some cg \<Rightarrow>
          (let elapsed = now - groupStartTimeW v
           in if groupDurationW v \<le>s elapsed then
                (case deref (priceW v) (Close cg) of
                   None \<Rightarrow> None
                 | Some finalCloseValue \<Rightarrow>
                     (let completedGroup = frozen cg finalCloseValue;
                          groups = groupsW v @ [completedGroup];
                          (groups, groupDuration) =
                            (if length groups \<ge> MergeThreshold
                             then mergeGroups groups (groupDurationW v)
                             else (groups, groupDurationW v))
                      in Some (v\<lparr> groupsW := groups, groupDurationW := groupDuration,
                                 currentGroupW := Some (newGroup (priceW v) now groupDuration),
                                 groupStartTimeW := now \<rparr>)))
              else
                Some (v\<lparr> currentGroupW := Some (cg\<lparr>
                          ValueList := ValueList cg @ [priceW v],
                          Close := AddrPrice,
                          Max_f := max (Max_f cg) (priceW v),
                          Min_f := min (Min_f cg) (priceW v) \<rparr>) \<rparr>)))"

text \<open>One iteration of \<^verbatim>\<open>for tick < 5000\<close>.\<close>

definition tickW_body ::
  "lib \<Rightarrow> (nat \<Rightarrow> 64 word) \<Rightarrow> nat \<Rightarrow> varsW \<Rightarrow> heap \<Rightarrow> (varsW \<times> heap) outcome" where
  "tickW_body L clock rng v h =
     (let (r, h) = Float64 L rng h
      in if r < RugProb then Stop (v\<lparr> ruggedW := True \<rparr>, h)
         else
           (let (price, h) = movePriceW L rng (priceW v) h;
                v = v\<lparr> priceW := price \<rparr>;
                v = (if priceW v > peakW v then v\<lparr> peakW := priceW v \<rparr> else v);
                now = clock (tickW v)
            in case candleGrouping now v of
                 None \<Rightarrow> NilPanic
               | Some v \<Rightarrow> Next (v\<lparr> tickW := tickW v + 1 \<rparr>, h)))"

lemma candleGrouping_tick: "candleGrouping now v = Some v' \<Longrightarrow> tickW v' = tickW v"
  by (auto simp: candleGrouping_def Let_def split_def split: option.splits if_splits)

lemma tickW_body_tick:
  "tickW_body L clock rng v h = Next (v', h') \<Longrightarrow> tickW v' = tickW v + 1"
  by (auto simp: tickW_body_def Let_def split_def
      split: option.splits if_splits dest!: candleGrouping_tick)

function loopW ::
  "lib \<Rightarrow> (nat \<Rightarrow> 64 word) \<Rightarrow> nat \<Rightarrow> varsW \<Rightarrow> heap \<Rightarrow> (varsW \<times> heap) option" where
  "loopW L clock rng v h =
     (if tickW v < 5000 then
        (case tickW_body L clock rng v h of
           Stop (v', h') \<Rightarrow> Some (v', h')
         | Next (v', h') \<Rightarrow> loopW L clock rng v' h'
         | NilPanic \<Rightarrow> None)
      else Some (v, h))"
  by pat_completeness auto
termination
  by (relation "measure (\<lambda>(L, clock, rng, v, h). 5000 - tickW v)")
     (auto dest: tickW_body_tick)

declare loopW.simps [simp del]

text \<open>\<^verbatim>\<open>// Complete final group\<close>: a rug forces the close and the minimum to \<open>0\<close>.\<close>

definition completeFinalGroup :: "varsW \<Rightarrow> varsW option" where
  "completeFinalGroup v =
     (case currentGroupW v of
        None \<Rightarrow> Some v
      | Some cg \<Rightarrow>
          if \<not> IsComplete cg then
            (if ruggedW v then
               (let cg = cg\<lparr> Min_f := 0 \<rparr>
                in Some (v\<lparr> currentGroupW := Some cg, groupsW := groupsW v @ [frozen cg 0] \<rparr>))
             else
               (case deref (priceW v) (Close cg) of
                  None \<Rightarrow> None
                | Some finalCloseValue \<Rightarrow>
                    Some (v\<lparr> groupsW := groupsW v @ [frozen cg finalCloseValue] \<rparr>)))
          else Some v)"

text \<open>The game: what \<^verbatim>\<open>game_end\<close> and the history entry are built from.\<close>

definition runCrashGame ::
  "lib \<Rightarrow> (nat \<Rightarrow> 64 word) \<Rightarrow> 64 word \<Rightarrow> string \<Rightarrow> string \<Rightarrow> heap \<Rightarrow> (varsW \<times> heap) option" where
  "runCrashGame L clock start serverSeed gameID h =
     (let combined = serverSeed @ ''-'' @ gameID;
          (rng, h) = NewSeededRNG L combined h;
          v = \<lparr> priceW = 1.0, peakW = 1.0, tickW = 0, ruggedW = False, groupsW = [],
                currentGroupW = None, groupDurationW = InitialGroupDurationMs,
                groupStartTimeW = start \<rparr>
      in case loopW L clock rng v h of
           None \<Rightarrow> None
         | Some (v, h) \<Rightarrow>
             (case completeFinalGroup v of
                None \<Rightarrow> None
              | Some v \<Rightarrow> Some (v, h)))"

text \<open>The candle invariant of the specification, for a candle whose close can be read.\<close>

definition candle_ok :: "real \<Rightarrow> CandleGroup \<Rightarrow> bool" where
  "candle_ok price g =
     (case deref price (Close g) of
        None \<Rightarrow> False
      | Some c \<Rightarrow> Min_f g \<le> Open g \<and> Open g \<le> Max_f g \<and> Min_f g \<le> c \<and> c \<le> Max_f g)"

section \<open>Candleflip (package game, candleflip file)\<close>

definition CandleflipStartingPrice :: real where "CandleflipStartingPrice = 1.0"
definition CandleflipTotalTicks :: nat where "CandleflipTotalTicks = 40"
definition CandleflipBigMoveChance :: real where "CandleflipBigMoveChance = 0.01"
definition CandleflipBigMovePct :: real where "CandleflipBigMovePct = 0.20"
definition CandleflipSmallMovePctMin :: real where "CandleflipSmallMovePctMin = 0.01"
definition CandleflipSmallMovePctMax :: real where "CandleflipSmallMovePctMax = 0.05"

definition GenerateCandleflipPrice :: "lib \<Rightarrow> nat \<Rightarrow> real \<Rightarrow> heap \<Rightarrow> real \<times> heap" where
  "GenerateCandleflipPrice L rng lastPrice h =
     (let (chance, h) = Float64 L rng h;
          (percentChange, h) =
            (if chance < CandleflipBigMoveChance then
               (let (s, h) = Float64 L rng h
                in (if s < 0.5 then - CandleflipBigMovePct else CandleflipBigMovePct, h))
             else
               (let (m, h) = Float64 L rng h;
                    magnitude = CandleflipSmallMovePctMin
                      + m * (CandleflipSmallMovePctMax - CandleflipSmallMovePctMin);
                    (s, h) = Float64 L rng h
                in (if s < 0.5 then - magnitude else magnitude, h)));
          newPrice = lastPrice * (1 + percentChange);
          newPrice = (if newPrice < 0 then 0 else newPrice)
      in (newPrice, h))"

text \<open>\<^verbatim>\<open>for i := 0; i < CandleflipTotalTicks; i++\<close>.\<close>

function candleflipLoop :: "lib \<Rightarrow> nat \<Rightarrow> nat \<Rightarrow> real \<Rightarrow> heap \<Rightarrow> real \<times> heap" where
  "candleflipLoop L rng i currentPrice h =
     (if i < CandleflipTotalTicks
      then (case GenerateCandleflipPrice L rng currentPrice h of
              (p, h') \<Rightarrow> candleflipLoop L rng (i + 1) p h')
      else (currentPrice, h))"
  by pat_completeness auto
termination
  by (relation "measure (\<lambda>(L, rng, i, p, h). CandleflipTotalTicks - i)") auto

declare candleflipLoop.simps [simp del]

definition VerifyCandleflip :: "lib \<Rightarrow> string \<Rightarrow> heap \<Rightarrow> string \<times> heap" where
  "VerifyCandleflip L serverSeed h =
     (let combined = serverSeed @ ''-candleflip'';
          (rng, h) = NewSeededRNG L combined h;
          (currentPrice, h) = candleflipLoop L rng 0 CandleflipStartingPrice h
      in (if currentPrice < 1.0 then ''RED'' else ''GREEN'', h))"

section \<open>Floating-point numbers of the cashout handler\<close>

text \<open>
  A \<^verbatim>\<open>float64\<close>: \<open>Finite x\<close> is the number \<open>x\<close> (with \<open>Finite 0\<close> the positive zero),
  \<open>NegZero\<close> the negative zero. Results are rounded to the nearest number with 53
  significant bits and an exponent of the binary64 format, ties to the even one;
  \<open>quantum r\<close> is the exponent of the last bit that a number of the size of \<open>r\<close> keeps.
\<close>

datatype float64 = Finite real | NegZero | PosInf | NegInf | NaN

fun valof :: "float64 \<Rightarrow> real" where
  "valof (Finite x) = x"
| "valof _ = 0"

fun isInf :: "float64 \<Rightarrow> bool" where
  "isInf PosInf = True"
| "isInf NegInf = True"
| "isInf _ = False"

fun isZero :: "float64 \<Rightarrow> bool" where
  "isZero (Finite x) = (x = 0)"
| "isZero NegZero = True"
| "isZero _ = False"

fun signbit :: "float64 \<Rightarrow> bool" where
  "signbit (Finite x) = (x < 0)"
| "signbit NegZero = True"
| "signbit NegInf = True"
| "signbit _ = False"

definition rne :: "real \<Rightarrow> int" where
  "rne q = (let n = \<lfloor>q\<rfloor>; f = q - of_int n
            in if f < 1 / 2 then n else if 1 / 2 < f then n + 1
               else if even n then n else n + 1)"

definition quantum :: "real \<Rightarrow> int" where
  "quantum r = max (\<lfloor>log 2 \<bar>r\<bar>\<rfloor> - 52) (- 1074)"

text \<open>\<open>round64 zero r\<close>: the \<^verbatim>\<open>float64\<close> for the exact result \<open>r\<close>; \<open>zero\<close> when \<open>r = 0\<close>.\<close>

definition round64 :: "float64 \<Rightarrow> real \<Rightarrow> float64" where
  "round64 zero r =
     (if r = 0 then zero
      else let e = quantum r;
               y = of_int (rne (r / 2 powi e)) * 2 powi e
           in if y \<ge> 2 ^ 1024 then PosInf
              else if y \<le> - (2 ^ 1024) then NegInf
              else if y = 0 then (if r < 0 then NegZero else Finite 0)
              else Finite y)"

fun fneg :: "float64 \<Rightarrow> float64" where
  "fneg (Finite x) = (if x = 0 then NegZero else Finite (- x))"
| "fneg NegZero = Finite 0"
| "fneg PosInf = NegInf"
| "fneg NegInf = PosInf"
| "fneg NaN = NaN"

definition fadd :: "float64 \<Rightarrow> float64 \<Rightarrow> float64" where
  "fadd a b =
     (if a = NaN \<or> b = NaN then NaN
      else if isInf a then (if isInf b \<and> a \<noteq> b then NaN else a)
      else if isInf b then b
      else round64 (if a = NegZero \<and> b = NegZero then NegZero else Finite 0)
             (valof a + valof b))"

definition fsub :: "float64 \<Rightarrow> float64 \<Rightarrow> float64" where
  "fsub a b = fadd a (fneg b)"

definition fmul :: "float64 \<Rightarrow> float64 \<Rightarrow> float64" where
  "fmul a b =
     (if a = NaN \<or> b = NaN then NaN
      else if isInf a \<or> isInf b then
        (if isZero a \<or> isZero b then NaN
         else if signbit a \<noteq> signbit b then NegInf else PosInf)
      else round64 (if signbit a \<noteq> signbit b then NegZero else Finite 0)
             (valof a * valof b))"

text \<open>\<^verbatim>\<open>json.Marshal\<close> refuses a \<^verbatim>\<open>float64\<close> that is an infinity or NaN.\<close>

fun isFinite :: "float64 \<Rightarrow> bool" where
  "isFinite (Finite x) = True"
| "isFinite NegZero = True"
| "isFinite _ = False"

text \<open>
  \<^verbatim>\<open>math/big\<close>: a \<^verbatim>\<open>big.Float\<close> made by \<^verbatim>\<open>big.NewFloat\<close> has 53 bits of precision and rounds
  to nearest even, with an exponent that does not overflow here; \<^verbatim>\<open>Int\<close> truncates
  towards zero.
\<close>

definition round53 :: "real \<Rightarrow> real" where
  "round53 r =
     (if r = 0 then 0
      else let e = \<lfloor>log 2 \<bar>r\<bar>\<rfloor> - 52 in of_int (rne (r / 2 powi e)) * 2 powi e)"

definition truncInt :: "real \<Rightarrow> int" where
  "truncInt x = (if x \<ge> 0 then \<lfloor>x\<rfloor> else \<lceil>x\<rceil>)"

section \<open>The unified hub (ws/unified.go)\<close>

text \<open>
  The decoded \<^verbatim>\<open>Data\<close> of a client message is a map from field names to JSON values;
  a type assertion \<^verbatim>\<open>data[k].(string)\<close> or \<^verbatim>\<open>data[k].(float64)\<close> panics when the field
  is missing or has another type.
\<close>

datatype jvalue = JString string | JNumber float64 | JOther

type_synonym jdata = "string \<Rightarrow> jvalue option"

text \<open>
  How a step can fail to give a next state: the goroutine panics; the step is outside
  the model; or the step cannot be taken in this state (a send on a full channel, a
  goroutine that has nothing to run).
\<close>

datatype failure = Panic | NotModelled | Blocked

definition assertString :: "jdata \<Rightarrow> string \<Rightarrow> failure + string" where
  "assertString data k = (case data k of Some (JString s) \<Rightarrow> Inr s | _ \<Rightarrow> Inl Panic)"

definition assertFloat :: "jdata \<Rightarrow> string \<Rightarrow> failure + float64" where
  "assertFloat data k = (case data k of Some (JNumber x) \<Rightarrow> Inr x | _ \<Rightarrow> Inl Panic)"

record ActiveBettor =
  Address :: string
  BetAmount :: real
  EntryMultiplier :: real
  BetTime :: "64 word"

text \<open>
  A chat message is the map of three strings that \<^verbatim>\<open>handleChatMessage\<close> builds; nothing
  else is put on the chat channel or into the chat history.
\<close>

datatype chat_message = ChatMessage string string string

text \<open>
  The messages that travel to clients. Of \<^verbatim>\<open>crash_cashout_result\<close> the formatted text
  field is left out; the other broadcasts of the game loops are \<open>GameEvent\<close>.
\<close>

datatype message =
    Chat chat_message
  | ActiveBettorsMsg "ActiveBettor list" nat
  | CrashHistoryMsg "CrashGameHistory list"
  | CrashCashoutResult bool float64 float64 float64 float64 float64
  | GameEvent string

text \<open>Whether \<^verbatim>\<open>json.Marshal\<close> encodes the message.\<close>

fun marshals :: "message \<Rightarrow> bool" where
  "marshals (CrashCashoutResult success cashoutMultiplier entryMultiplier betAmount
       payoutAmount profit) =
     (isFinite cashoutMultiplier \<and> isFinite entryMultiplier \<and> isFinite betAmount
      \<and> isFinite payoutAmount \<and> isFinite profit)"
| "marshals _ = True"

text \<open>
  What has been written to a client's websocket, in order: by \<^verbatim>\<open>writePump\<close> from the
  \<^verbatim>\<open>Send\<close> channel, or directly by \<^verbatim>\<open>writeJSON\<close>. Writes are taken to succeed, and each
  is one step (they exclude each other by \<^verbatim>\<open>writeMutex\<close>).
\<close>

datatype frame = FromSend message | Direct message

text \<open>
  The goroutines run one beside the other; a step of the model is one access of a
  goroutine to what it shares with the others (a section under a lock, an operation of
  a channel, a write to the connection), together with what it does alone before it.

  What is left to run of the call of \<^verbatim>\<open>handleMessage\<close> that a client's \<^verbatim>\<open>readPump\<close> is in:
  the call of \<^verbatim>\<open>sendInitialData\<close>; for the crash channel the reading of the bettors; a
  write \<^verbatim>\<open>c.writeJSON(v)\<close>; a send \<^verbatim>\<open>c.Send <- data\<close> on the channel of the client at an
  index.
\<close>

datatype action =
    SendInitialData string
  | SendActiveBettors
  | WriteJSON message
  | SendOn nat message

text \<open>
  \<open>todo\<close> is empty when \<^verbatim>\<open>readPump\<close> waits for the next message of the client; \<open>writing\<close>
  is the message that \<^verbatim>\<open>writePump\<close> has taken from the channel and not yet written.
\<close>

record ClientConnection =
  ID :: string
  Subscriptions :: "string set"
  Send :: "message list"
  writing :: "message option"
  wire :: "frame list"
  todo :: "action list"

text \<open>
  What is left of the loop over the clients in \<^verbatim>\<open>broadcastToSubscribers\<close>: for a client,
  the look at its subscription to the channel, and the send that follows when it is
  subscribed.
\<close>

datatype hub_action = Look nat string message | Give nat message

text \<open>
  Calls that the handlers start on goroutines of their own (database, contract); the
  model records them in the order they are started.
\<close>

datatype effect =
    PayPlayer string int
  | UpdateCrashBetCashout string string float64 float64 string
  | AddWalletPnL string float64
  | StoreChatMessage string string string

text \<open>
  The channels of the hub are lists without a bound: a full channel only makes its
  sender wait.
\<close>

record hub =
  clients :: "ClientConnection list"
  crashBroadcast :: "message list"
  chatBroadcastCh :: "chat_message list"
  roomsBroadcast :: "message list"
  chatHistory :: "chat_message list"
  activeBettors :: "(string \<times> ActiveBettor) list"
  crashGameHistory :: "CrashGameHistory list"
  crashStatus :: string
  contractClient :: bool
  effects :: "effect list"
  hubTodo :: "hub_action list"

definition maxChatHistory :: nat where "maxChatHistory = 100"

definition SendCapacity :: nat where "SendCapacity = 256"

text \<open>\<^verbatim>\<open>select { case client.Send <- data: default: }\<close>: dropped when the buffer is full.\<close>

definition trySend :: "ClientConnection \<Rightarrow> message \<Rightarrow> ClientConnection" where
  "trySend c m = (if length (Send c) < SendCapacity then c\<lparr> Send := Send c @ [m] \<rparr> else c)"

text \<open>
  One step of \<^verbatim>\<open>writePump\<close>: it takes the next message from the channel (and waits when
  there is none), or it writes the message it has taken.
\<close>

definition writePump :: "ClientConnection \<Rightarrow> failure + ClientConnection" where
  "writePump c =
     (case writing c of
        Some message \<Rightarrow> Inr (c\<lparr> wire := wire c @ [FromSend message], writing := None \<rparr>)
      | None \<Rightarrow>
          (case Send c of
             [] \<Rightarrow> Inl Blocked
           | x # xs \<Rightarrow> Inr (c\<lparr> writing := Some x, Send := xs \<rparr>)))"

definition writeJSON :: "ClientConnection \<Rightarrow> message \<Rightarrow> ClientConnection" where
  "writeJSON c m = c\<lparr> wire := wire c @ [Direct m] \<rparr>"

text \<open>
  \<^verbatim>\<open>broadcastToSubscribers\<close>, up to its loop: \<open>order\<close> is the order in which the loop
  \<^verbatim>\<open>for client := range clients\<close> will meet the clients.
\<close>

definition broadcastToSubscribers :: "string \<Rightarrow> message \<Rightarrow> nat list \<Rightarrow> hub \<Rightarrow> hub" where
  "broadcastToSubscribers channel m order s =
     (if \<not> marshals m then s
      else s\<lparr> hubTodo := map (\<lambda>j. Look j channel m) order \<rparr>)"

text \<open>
  The three broadcast cases of the \<^verbatim>\<open>select\<close> in \<^verbatim>\<open>runEventHub\<close>; each takes the
  oldest message of its channel; a chat message is first stored in the history, under
  the lock of the history. (Register and unregister are not modelled.)
\<close>

datatype channel = CrashCh | ChatCh | RoomsCh

fun hubTake :: "channel \<Rightarrow> nat list \<Rightarrow> hub \<Rightarrow> hub" where
  "hubTake CrashCh order s =
     (case crashBroadcast s of
        [] \<Rightarrow> s
      | m # ms \<Rightarrow> broadcastToSubscribers ''crash'' m order (s\<lparr> crashBroadcast := ms \<rparr>))"
| "hubTake ChatCh order s =
     (case chatBroadcastCh s of
        [] \<Rightarrow> s
      | m # ms \<Rightarrow>
          (let hist = chatHistory s @ [m];
               hist = (if length hist > maxChatHistory then tl hist else hist)
           in broadcastToSubscribers ''chat'' (Chat m) order
                (s\<lparr> chatBroadcastCh := ms, chatHistory := hist \<rparr>)))"
| "hubTake RoomsCh order s =
     (case roomsBroadcast s of
        [] \<Rightarrow> s
      | m # ms \<Rightarrow> broadcastToSubscribers ''rooms'' m order (s\<lparr> roomsBroadcast := ms \<rparr>))"

text \<open>The next step of the loop of \<^verbatim>\<open>broadcastToSubscribers\<close>.\<close>

definition hubStep :: "hub \<Rightarrow> failure + hub" where
  "hubStep s =
     (case hubTodo s of
        [] \<Rightarrow> Inl Blocked
      | Look j channel m # rest \<Rightarrow>
          (let subscribed = channel \<in> Subscriptions (clients s ! j)
           in Inr (s\<lparr> hubTodo := (if subscribed then Give j m # rest else rest) \<rparr>))
      | Give j m # rest \<Rightarrow>
          Inr (s\<lparr> clients := (clients s)[j := trySend (clients s ! j) m], hubTodo := rest \<rparr>))"

text \<open>The goroutine of the client at index \<open>i\<close> goes on with \<open>as\<close>.\<close>

definition setTodo :: "nat \<Rightarrow> action list \<Rightarrow> hub \<Rightarrow> hub" where
  "setTodo i as s = s\<lparr> clients := (clients s)[i := (clients s ! i)\<lparr> todo := as \<rparr>] \<rparr>"

text \<open>
  \<^verbatim>\<open>sendInitialData\<close> for the client at index \<open>i\<close>, up to its first write or send; \<open>rest\<close> is
  what the caller has left to run. For \<open>crash\<close> the history of games is read, and its
  write and the bettors are left; for \<open>chat\<close> the history is copied under its lock and
  the sends of the loop are left, one for each copied message in order.
\<close>

definition sendInitialData :: "nat \<Rightarrow> string \<Rightarrow> action list \<Rightarrow> hub \<Rightarrow> hub" where
  "sendInitialData i channel rest s =
     (if channel = ''crash'' then
        (let history = crashGameHistory s
         in setTodo i (WriteJSON (CrashHistoryMsg history) # SendActiveBettors # rest) s)
      else if channel = ''rooms'' then setTodo i rest s
      else if channel = ''chat'' then
        (let history = chatHistory s
         in setTodo i (map (\<lambda>msg. SendOn i (Chat msg)) history @ rest) s)
      else setTodo i rest s)"

definition sendActiveBettors :: "nat \<Rightarrow> action list \<Rightarrow> hub \<Rightarrow> hub" where
  "sendActiveBettors i rest s =
     (let bettors = map snd (activeBettors s)
      in setTodo i (WriteJSON (ActiveBettorsMsg bettors (length bettors)) # rest) s)"

text \<open>\<^verbatim>\<open>c.Send <- data\<close> for the client at index \<open>j\<close>: waits while the buffer is full.\<close>

definition sendOn :: "nat \<Rightarrow> message \<Rightarrow> hub \<Rightarrow> failure + hub" where
  "sendOn j m s =
     (if j \<ge> length (clients s) then Inl NotModelled
      else if length (Send (clients s ! j)) < SendCapacity then
        Inr (s\<lparr> clients := (clients s)[j := (clients s ! j)\<lparr> Send := Send (clients s ! j) @ [m] \<rparr>] \<rparr>)
      else Inl Blocked)"

text \<open>\<^verbatim>\<open>RemoveActiveBettor\<close> and the broadcast it makes when the bettor was there.\<close>

definition bettorsMessage :: "(string \<times> ActiveBettor) list \<Rightarrow> message" where
  "bettorsMessage bs = ActiveBettorsMsg (map snd bs) (length bs)"

definition RemoveActiveBettor :: "string \<Rightarrow> hub \<Rightarrow> hub" where
  "RemoveActiveBettor address s =
     (if address \<in> fst ` set (activeBettors s) then
        (let bs = filter (\<lambda>p. fst p \<noteq> address) (activeBettors s)
         in s\<lparr> activeBettors := bs, crashBroadcast := crashBroadcast s @ [bettorsMessage bs] \<rparr>)
      else s)"

text \<open>
  \<^verbatim>\<open>sendPrivateMessage\<close>, run by the goroutine of the client at index \<open>i\<close> (the parameter
  \<^verbatim>\<open>client\<close> of the code is not used): for the first registered client whose \<^verbatim>\<open>ID\<close> is
  \<open>userId\<close> the message is encoded and, unless that fails, the send on that client's
  channel is left to run.
\<close>

definition sendPrivateMessage :: "nat \<Rightarrow> string \<Rightarrow> message \<Rightarrow> hub \<Rightarrow> hub" where
  "sendPrivateMessage i userId m s =
     (case find (\<lambda>j. ID (clients s ! j) = userId) [0 ..< length (clients s)] of
        None \<Rightarrow> s
      | Some j \<Rightarrow> if \<not> marshals m then s else setTodo i [SendOn j m] s)"

text \<open>
  The amount of the contract call: \<^verbatim>\<open>big.NewFloat\<close> panics for NaN; for an infinity \<^verbatim>\<open>Int\<close>
  returns nil and leaves \<^verbatim>\<open>payoutBigInt\<close> at zero.
\<close>

definition payoutWei :: "float64 \<Rightarrow> failure + int" where
  "payoutWei payoutAmount =
     (case payoutAmount of
        NaN \<Rightarrow> Inl Panic
      | PosInf \<Rightarrow> Inr 0
      | NegInf \<Rightarrow> Inr 0
      | NegZero \<Rightarrow> Inr 0
      | Finite x \<Rightarrow> Inr (truncInt (round53 (x * 10 ^ 18))))"

text \<open>\<^verbatim>\<open>handleCrashCashout\<close>, run by the goroutine of the client at index \<open>i\<close>.\<close>

definition handleCrashCashout :: "nat \<Rightarrow> jdata \<Rightarrow> hub \<Rightarrow> failure + hub" where
  "handleCrashCashout i data s =
     (case assertString data ''playerAddress'' of Inl e \<Rightarrow> Inl e | Inr playerAddress \<Rightarrow>
      case assertString data ''userId'' of Inl e \<Rightarrow> Inl e | Inr userId \<Rightarrow>
      case assertString data ''gameId'' of Inl e \<Rightarrow> Inl e | Inr gameId \<Rightarrow>
      case assertFloat data ''cashoutMultiplier'' of Inl e \<Rightarrow> Inl e | Inr cashoutMultiplier \<Rightarrow>
      case assertFloat data ''betAmount'' of Inl e \<Rightarrow> Inl e | Inr betAmount \<Rightarrow>
      case assertFloat data ''entryMultiplier'' of Inl e \<Rightarrow> Inl e | Inr entryMultiplier \<Rightarrow>
        (let profit = fmul betAmount (fsub cashoutMultiplier (Finite 1));
             payoutAmount = fadd betAmount profit
         in case (if contractClient s
                  then (case payoutWei payoutAmount of
                          Inl e \<Rightarrow> Inl e
                        | Inr payoutBigInt \<Rightarrow>
                            Inr (s\<lparr> effects := effects s @ [PayPlayer playerAddress payoutBigInt] \<rparr>))
                  else Inr s) of
              Inl e \<Rightarrow> Inl e
            | Inr s \<Rightarrow>
                (let s = s\<lparr> effects := effects s
                          @ [UpdateCrashBetCashout gameId playerAddress cashoutMultiplier
                               payoutAmount [],
                             AddWalletPnL playerAddress payoutAmount] \<rparr>;
                     s = RemoveActiveBettor playerAddress s
                 in Inr (sendPrivateMessage i userId
                      (CrashCashoutResult True cashoutMultiplier entryMultiplier betAmount
                         payoutAmount profit) s))))"

text \<open>\<^verbatim>\<open>handleChatMessage\<close>; \<open>now\<close> is the formatted time of the call.\<close>

definition handleChatMessage :: "nat \<Rightarrow> jdata \<Rightarrow> string \<Rightarrow> hub \<Rightarrow> failure + hub" where
  "handleChatMessage i data now s =
     (case assertString data ''message'' of Inl e \<Rightarrow> Inl e | Inr text \<Rightarrow>
        (let playerAddress =
               (case data ''playerAddress'' of
                  Some (JString addr) \<Rightarrow> if addr \<noteq> [] then addr else ID (clients s ! i)
                | _ \<Rightarrow> ID (clients s ! i));
             chatMsg = ChatMessage playerAddress text now
         in Inr (s\<lparr> effects := effects s @ [StoreChatMessage playerAddress text now],
                    chatBroadcastCh := chatBroadcastCh s @ [chatMsg] \<rparr>)))"

text \<open>\<^verbatim>\<open>c.Subscriptions[channel] = true\<close> and \<^verbatim>\<open>delete(c.Subscriptions, channel)\<close>.\<close>

definition subscribe :: "nat \<Rightarrow> string \<Rightarrow> hub \<Rightarrow> hub" where
  "subscribe i ch s =
     s\<lparr> clients := (clients s)
          [i := (clients s ! i)\<lparr> Subscriptions := insert ch (Subscriptions (clients s ! i)) \<rparr>] \<rparr>"

definition unsubscribe :: "nat \<Rightarrow> string \<Rightarrow> hub \<Rightarrow> hub" where
  "unsubscribe i ch s =
     s\<lparr> clients := (clients s)
          [i := (clients s ! i)\<lparr> Subscriptions := Subscriptions (clients s ! i) - {ch} \<rparr>] \<rparr>"

text \<open>
  \<^verbatim>\<open>handleMessage\<close> of the client at index \<open>i\<close>, up to the first point at which other
  goroutines matter: for \<open>subscribe\<close> the subscription is entered and the call of
  \<^verbatim>\<open>sendInitialData\<close> is left to run. The room, batch and bet-placement messages are
  not modelled.
\<close>

definition handleMessage :: "nat \<Rightarrow> string \<Rightarrow> jdata \<Rightarrow> string \<Rightarrow> hub \<Rightarrow> failure + hub" where
  "handleMessage i type data now s =
     (if i \<ge> length (clients s) then Inl NotModelled
      else if type = ''subscribe'' then
        (case assertString data ''channel'' of Inl e \<Rightarrow> Inl e | Inr ch \<Rightarrow>
           Inr (setTodo i [SendInitialData ch] (subscribe i ch s)))
      else if type = ''unsubscribe'' then
        (case assertString data ''channel'' of Inl e \<Rightarrow> Inl e | Inr ch \<Rightarrow>
           Inr (unsubscribe i ch s))
      else if type = ''chat_message'' then handleChatMessage i data now s
      else if type = ''crash_cashout'' then handleCrashCashout i data s
      else if type = ''join_candleflip_room'' then
        (case assertString data ''roomId'' of Inl e \<Rightarrow> Inl e | Inr roomID \<Rightarrow>
           Inr (subscribe i (''candleflip:'' @ roomID) s))
      else if type \<in> {''create_room'', ''crash_bet_placed'', ''create_batch''} then Inl NotModelled
      else Inr s)"

text \<open>The next step of the call that the client at index \<open>i\<close> is in.\<close>

definition continue :: "nat \<Rightarrow> hub \<Rightarrow> failure + hub" where
  "continue i s =
     (case todo (clients s ! i) of
        [] \<Rightarrow> Inl Blocked
      | SendInitialData ch # rest \<Rightarrow> Inr (sendInitialData i ch rest s)
      | SendActiveBettors # rest \<Rightarrow> Inr (sendActiveBettors i rest s)
      | WriteJSON v # rest \<Rightarrow>
          Inr (s\<lparr> clients := (clients s)[i := (writeJSON (clients s ! i) v)\<lparr> todo := rest \<rparr>] \<rparr>)
      | SendOn j m # rest \<Rightarrow>
          (case sendOn j m s of Inl e \<Rightarrow> Inl e | Inr s \<Rightarrow> Inr (setTodo i rest s)))"

text \<open>
  What can happen next, and a run of such events: \<^verbatim>\<open>readPump\<close> of a client reads a
  message and starts to handle it (only when its last call has returned); the call a
  client is in takes its next step; \<^verbatim>\<open>writePump\<close> of a client takes its next step; the hub
  takes a message from one of its channels (only when its last broadcast is over), and
  will meet the clients in an order that names each of them once; the broadcast of the
  hub takes its next step.
\<close>

datatype event =
    Recv nat string jdata string
  | Cont nat
  | Pump nat
  | Hub channel "nat list"
  | HubCont

fun step :: "event \<Rightarrow> hub \<Rightarrow> failure + hub" where
  "step (Recv i type data now) s =
     (if i \<ge> length (clients s) then Inl NotModelled
      else if todo (clients s ! i) \<noteq> [] then Inl Blocked
      else handleMessage i type data now s)"
| "step (Cont i) s = (if i < length (clients s) then continue i s else Inl NotModelled)"
| "step (Pump i) s =
     (if i < length (clients s)
      then (case writePump (clients s ! i) of
              Inl e \<Rightarrow> Inl e
            | Inr c \<Rightarrow> Inr (s\<lparr> clients := (clients s)[i := c] \<rparr>))
      else Inl NotModelled)"
| "step (Hub ch order) s =
     (if hubTodo s \<noteq> [] then Inl Blocked
      else if distinct order \<and> set order = {0 ..< length (clients s)}
      then Inr (hubTake ch order s)
      else Inl NotModelled)"
| "step HubCont s = hubStep s"

fun run :: "event list \<Rightarrow> hub \<Rightarrow> failure + hub" where
  "run [] s = Inr s"
| "run (e # es) s = (case step e s of Inl f \<Rightarrow> Inl f | Inr s' \<Rightarrow> run es s')"



subsection \<open>Auxiliary definitions for mergeGroups\<close>

text \<open>The pair loop as structural recursion; the two views agree.\<close>

fun pairs :: "CandleGroup list \<Rightarrow> CandleGroup list" where
  "pairs (g1 # g2 # rest) = merged g1 g2 # pairs rest"
| "pairs gs = []"

fun pairsOdd :: "CandleGroup list \<Rightarrow> CandleGroup list" where
  "pairsOdd (g1 # g2 # rest) = merged g1 g2 # pairsOdd rest"
| "pairsOdd [g] = [g]"
| "pairsOdd [] = []"

text \<open>A finished candle, for concrete instances.\<close>

definition candle :: "real \<Rightarrow> real \<Rightarrow> real \<Rightarrow> real \<Rightarrow> 64 word \<Rightarrow> CandleGroup" where
  "candle opn cls mx mn start =
     \<lparr> Open = opn, Close = AddrConst cls, Max_f = mx, Min_f = mn, ValueList = [],
       StartTime = start, DurationMs = 5000, IsComplete = True \<rparr>"

subsection \<open>Concrete instances of the library\<close>

text \<open>
  A finite table of draws, repeated cyclically for the first \<open>k\<close> draws and \<open>0\<close> after:
  the generator's output in a concrete run.
\<close>

definition cyclic :: "real list \<Rightarrow> nat \<Rightarrow> nat \<Rightarrow> real" where
  "cyclic xs k n = (if n < k then xs ! (n mod length xs) else 0)"

text \<open>
  A library for concrete runs. Its digest repeats the length of the string, so that
  \<open>''abc-g1''\<close> seeds the generator \<open>0x0606060606060606\<close>, whose draws are \<open>main\<close>; every
  other seed draws \<open>sub\<close>.
\<close>

definition demo_lib :: "(nat \<Rightarrow> real) \<Rightarrow> (nat \<Rightarrow> real) \<Rightarrow> lib" where
  "demo_lib main sub =
     \<lparr> sha256_sum = (\<lambda>s. replicate 32 (of_nat (length s))),
       float_at = (\<lambda>k n. if k = 0x0606060606060606 then main n else sub n) \<rparr>"

subsection \<open>Auxiliary definitions for the generator heap\<close>

text \<open>
  Two heaps look alike from a pair of addresses when both addresses are allocated and
  hold equal generator objects.
\<close>

definition alike :: "nat \<Rightarrow> heap \<Rightarrow> nat \<Rightarrow> heap \<Rightarrow> bool" where
  "alike a h a' h' \<longleftrightarrow> a < length h \<and> a' < length h' \<and> h ! a = h' ! a'"

definition alike_res :: "nat \<Rightarrow> nat \<Rightarrow> ('a \<times> heap) \<Rightarrow> ('a \<times> heap) \<Rightarrow> bool" where
  "alike_res a a' p p' \<longleftrightarrow> fst p = fst p' \<and> alike a (snd p) a' (snd p')"

fun same_flow :: "nat \<Rightarrow> nat \<Rightarrow> ('a \<times> heap) flow \<Rightarrow> ('a \<times> heap) flow \<Rightarrow> bool" where
  "same_flow a a' (Break p) (Break p') \<longleftrightarrow> alike_res a a' p p'"
| "same_flow a a' (Continue p) (Continue p') \<longleftrightarrow> alike_res a a' p p'"
| "same_flow a a' _ _ \<longleftrightarrow> False"

text \<open>The results of \<open>n\<close> successive calls of \<^verbatim>\<open>Float64\<close> on one generator.\<close>

fun drawN :: "lib \<Rightarrow> nat \<Rightarrow> nat \<Rightarrow> heap \<Rightarrow> real list \<times> heap" where
  "drawN L rng 0 h = ([], h)"
| "drawN L rng (Suc n) h =
     (case Float64 L rng h of (x, h') \<Rightarrow>
        (case drawN L rng n h' of (xs, h'') \<Rightarrow> (x # xs, h'')))"

subsection \<open>Auxiliary definitions for candleflip\<close>

text \<open>
  \<open>mirrored k f f'\<close>: over \<open>k\<close> ticks the draws \<open>f'\<close> take the same branches and the same
  magnitudes as the draws \<open>f\<close>, and the opposite sign at every tick.
\<close>

definition in_unit :: "(nat \<Rightarrow> real) \<Rightarrow> bool" where
  "in_unit f \<longleftrightarrow> (\<forall>n. 0 \<le> f n \<and> f n < 1)"

fun mirrored :: "nat \<Rightarrow> (nat \<Rightarrow> real) \<Rightarrow> (nat \<Rightarrow> real) \<Rightarrow> bool" where
  "mirrored 0 f f' \<longleftrightarrow> True"
| "mirrored (Suc k) f f' \<longleftrightarrow>
     f' 0 = f 0 \<and>
     (if f 0 < CandleflipBigMoveChance
      then (f' 1 < 0.5 \<longleftrightarrow> \<not> f 1 < 0.5) \<and> mirrored k (\<lambda>j. f (j + 2)) (\<lambda>j. f' (j + 2))
      else f' 1 = f 1 \<and> (f' 2 < 0.5 \<longleftrightarrow> \<not> f 2 < 0.5)
           \<and> mirrored k (\<lambda>j. f (j + 3)) (\<lambda>j. f' (j + 3)))"

text \<open>The invariant of the growth and decline loops: every recorded price is capped.\<close>

definition seen_ok :: "real \<Rightarrow> varsT \<Rightarrow> bool" where
  "seen_ok pk v \<longleftrightarrow> (\<forall>x \<in> set (seenT v). x \<le> pk) \<and> length (seenT v) = tickT v"

subsection \<open>Auxiliary definitions for the hub\<close>





text \<open>A hub with two clients and three stored chat messages, and a cashout message.\<close>

definition demo_client :: "string \<Rightarrow> ClientConnection" where
  "demo_client name =
     \<lparr> ID = name, Subscriptions = {}, Send = [], writing = None, wire = [], todo = [] \<rparr>"

definition demo_hub :: hub where
  "demo_hub =
     \<lparr> clients = [demo_client ''1700000000-1'', demo_client ''1700000000-2''],
       crashBroadcast = [], chatBroadcastCh = [], roomsBroadcast = [],
       chatHistory = [ChatMessage ''0xA'' ''one'' ''t1'', ChatMessage ''0xB'' ''two'' ''t2'',
                      ChatMessage ''0xA'' ''three'' ''t3''],
       activeBettors = [], crashGameHistory = [], crashStatus = ''running'',
       contractClient = False, effects = [], hubTodo = [] \<rparr>"

definition demo_cashout :: "string \<Rightarrow> float64 \<Rightarrow> float64 \<Rightarrow> jdata" where
  "demo_cashout userId cashoutMultiplier betAmount =
     map_of [(''playerAddress'', JString ''0xA''), (''userId'', JString userId),
             (''gameId'', JString ''1700000000''), (''cashoutMultiplier'', JNumber cashoutMultiplier),
             (''betAmount'', JNumber betAmount), (''entryMultiplier'', JNumber (Finite 1))]"










text \<open>A bet of \<open>2 ^ 1023\<close>, about \<open>8.988e307\<close>, which is a \<^verbatim>\<open>float64\<close>.\<close>

definition demo_bet :: real where "demo_bet = 2 ^ 1023"


section \<open>Proofs: mergeGroups\<close>

lemma lastGroupCopy_id: "lastGroupCopy g = g"
  by (simp add: lastGroupCopy_def)

lemma mergeLoop_pairs: "mergeLoop groups i acc = acc @ pairs (drop i groups)"
proof (induction groups i acc rule: mergeLoop.induct)
  case (1 groups i newGroups)
  show ?case
  proof (cases "int i < int (length groups) - 1")
    case True
    then have lt: "i < length groups" "Suc i < length groups" by auto
    have "drop i groups = groups ! i # groups ! Suc i # drop (i + 2) groups"
      using lt by (simp add: Cons_nth_drop_Suc)
    with True "1.IH" show ?thesis by simp
  next
    case False
    then have "length (drop i groups) \<le> 1" by auto
    then have "pairs (drop i groups) = []"
      by (cases "drop i groups" rule: pairs.cases) auto
    with False show ?thesis by simp
  qed
qed

lemma pairsOdd_split:
  "pairsOdd gs = pairs gs @ (if length gs mod 2 = 1 then [last gs] else [])"
  by (induction gs rule: pairsOdd.induct) (auto simp: mod_Suc split: if_splits)

lemma mergeGroups_pairsOdd: "mergeGroups groups d = (pairsOdd groups, d * 2)"
proof -
  have "length groups mod 2 = 1 \<Longrightarrow> groups ! (length groups - 1) = last groups"
    by (cases "groups = []") (simp_all add: last_conv_nth)
  then show ?thesis
    unfolding mergeGroups_def Let_def mergeLoop_pairs pairsOdd_split lastGroupCopy_id
    by simp
qed

lemma length_pairsOdd: "length (pairsOdd gs) = (length gs + 1) div 2"
  by (induction gs rule: pairsOdd.induct) auto

lemma nth_pairsOdd:
  "2 * i + 1 < length gs \<Longrightarrow> pairsOdd gs ! i = merged (gs ! (2 * i)) (gs ! (2 * i + 1))"
proof (induction gs arbitrary: i rule: pairsOdd.induct)
  case (1 g1 g2 rest)
  then show ?case by (cases i) auto
qed auto

lemma pairsOdd_Nil_iff: "pairsOdd gs = [] \<longleftrightarrow> gs = []"
  by (cases gs rule: pairsOdd.cases) auto

lemma last_pairsOdd:
  "length gs mod 2 = 1 \<Longrightarrow> last (pairsOdd gs) = last gs"
proof (induction gs rule: pairsOdd.induct)
  case (1 g1 g2 rest)
  from "1.prems" have odd: "length rest mod 2 = 1" by simp
  then have "rest \<noteq> []" by auto
  then have "pairsOdd rest \<noteq> []" by (simp add: pairsOdd_Nil_iff)
  with \<open>rest \<noteq> []\<close> "1.IH" [OF odd] show ?case by simp
qed auto

lemma Min_pairsOdd:
  "gs \<noteq> [] \<Longrightarrow> Min (Min_f ` set (pairsOdd gs)) = Min (Min_f ` set gs)"
proof (induction gs rule: pairsOdd.induct)
  case (1 g1 g2 rest)
  show ?case
  proof (cases "rest = []")
    case True
    then show ?thesis by (simp add: merged_def min.commute)
  next
    case False
    then have ne: "pairsOdd rest \<noteq> []" by (simp add: pairsOdd_Nil_iff)
    from False 1 have IH: "Min (Min_f ` set (pairsOdd rest)) = Min (Min_f ` set rest)" by simp
    have "Min (Min_f ` set (pairsOdd (g1 # g2 # rest)))
        = min (min (Min_f g1) (Min_f g2)) (Min (Min_f ` set (pairsOdd rest)))"
      using ne by (simp add: merged_def)
    also have "\<dots> = Min (Min_f ` set (g1 # g2 # rest))"
      using False by (simp add: IH min.assoc)
    finally show ?thesis .
  qed
qed auto

lemma Max_pairsOdd:
  "gs \<noteq> [] \<Longrightarrow> Max (Max_f ` set (pairsOdd gs)) = Max (Max_f ` set gs)"
proof (induction gs rule: pairsOdd.induct)
  case (1 g1 g2 rest)
  show ?case
  proof (cases "rest = []")
    case True
    then show ?thesis by (simp add: merged_def max.commute)
  next
    case False
    then have ne: "pairsOdd rest \<noteq> []" by (simp add: pairsOdd_Nil_iff)
    from False 1 have IH: "Max (Max_f ` set (pairsOdd rest)) = Max (Max_f ` set rest)" by simp
    have "Max (Max_f ` set (pairsOdd (g1 # g2 # rest)))
        = max (max (Max_f g1) (Max_f g2)) (Max (Max_f ` set (pairsOdd rest)))"
      using ne by (simp add: merged_def)
    also have "\<dots> = Max (Max_f ` set (g1 # g2 # rest))"
      using False by (simp add: IH max.assoc)
    finally show ?thesis .
  qed
qed auto

text \<open>
  C7. For every candle list and current duration, \<open>mergeGroups\<close> merges adjacent
  candles pairwise: the candle at index \<open>i\<close> of the result has the open of candle
  \<open>2 i\<close>, the close of candle \<open>2 i + 1\<close>, the larger of the two maxima, the smaller of
  the two minima and twice the duration of candle \<open>2 i\<close> (an \<^verbatim>\<open>int64\<close> product); an odd
  trailing candle is carried over as it is; the returned duration is twice the current
  one; and the least minimum and the greatest maximum over the candles are the same
  before and after.
\<close>

theorem mergeGroups_pairwise_and_extremes:
  "length (fst (mergeGroups groups d)) = (length groups + 1) div 2
   \<and> (\<forall>i. 2 * i + 1 < length groups \<longrightarrow>
         Open (fst (mergeGroups groups d) ! i) = Open (groups ! (2 * i))
       \<and> Close (fst (mergeGroups groups d) ! i) = Close (groups ! (2 * i + 1))
       \<and> Max_f (fst (mergeGroups groups d) ! i)
           = max (Max_f (groups ! (2 * i))) (Max_f (groups ! (2 * i + 1)))
       \<and> Min_f (fst (mergeGroups groups d) ! i)
           = min (Min_f (groups ! (2 * i))) (Min_f (groups ! (2 * i + 1)))
       \<and> DurationMs (fst (mergeGroups groups d) ! i) = DurationMs (groups ! (2 * i)) * 2)
   \<and> (length groups mod 2 = 1 \<longrightarrow> last (fst (mergeGroups groups d)) = last groups)
   \<and> snd (mergeGroups groups d) = d * 2
   \<and> (groups \<noteq> [] \<longrightarrow>
         Min (Min_f ` set (fst (mergeGroups groups d))) = Min (Min_f ` set groups)
       \<and> Max (Max_f ` set (fst (mergeGroups groups d))) = Max (Max_f ` set groups))"
  by (simp add: mergeGroups_pairsOdd length_pairsOdd nth_pairsOdd last_pairsOdd
      Min_pairsOdd Max_pairsOdd merged_def)

theorem mergeGroups_pairwise_and_extremes_witness:
  "fst (mergeGroups [candle 1 2 3 1 0, candle 2 4 5 (1/2) 5000, candle 4 3 4 3 10000] 5000)
     = [\<lparr> Open = 1, Close = AddrConst 4, Max_f = 5, Min_f = 1/2, ValueList = [],
          StartTime = 0, DurationMs = 10000, IsComplete = True \<rparr>,
        candle 4 3 4 3 10000]
   \<and> snd (mergeGroups [candle 1 2 3 1 0, candle 2 4 5 (1/2) 5000, candle 4 3 4 3 10000] 5000)
     = 10000
   \<and> Min (Min_f ` set (fst (mergeGroups
        [candle 1 2 3 1 0, candle 2 4 5 (1/2) 5000, candle 4 3 4 3 10000] 5000))) = 1/2
   \<and> Max (Max_f ` set (fst (mergeGroups
        [candle 1 2 3 1 0, candle 2 4 5 (1/2) 5000, candle 4 3 4 3 10000] 5000))) = 5"
  using mergeGroups_pairwise_and_extremes
    [of "[candle 1 2 3 1 0, candle 2 4 5 (1/2) 5000, candle 4 3 4 3 10000]" 5000]
  by (simp add: mergeGroups_pairsOdd merged_def candle_def)

section \<open>Proofs: history ring buffer\<close>

lemma addToHistory_drop:
  "addToHistory h g = drop (length (h @ [g]) - MaxGameHistory) (h @ [g])"
  by (simp add: addToHistory_def Let_def)

lemma foldl_addToHistory:
  "foldl addToHistory (drop (length xs - MaxGameHistory) xs) gs
     = drop (length (xs @ gs) - MaxGameHistory) (xs @ gs)"
proof (induction gs arbitrary: xs)
  case Nil
  then show ?case by simp
next
  case (Cons g gs)
  have "addToHistory (drop (length xs - MaxGameHistory) xs) g
      = drop (length (xs @ [g]) - MaxGameHistory) (xs @ [g])"
  proof (cases "length xs \<le> MaxGameHistory")
    case True
    then show ?thesis by (simp add: addToHistory_drop)
  next
    case False
    then have "length xs - (length xs - MaxGameHistory) = MaxGameHistory"
      and "Suc (length xs) - MaxGameHistory = Suc (length xs - MaxGameHistory)"
      and "Suc MaxGameHistory - MaxGameHistory = Suc 0" by auto
    then show ?thesis by (simp add: addToHistory_drop)
  qed
  then show ?case using Cons.IH [of "xs @ [g]"] by simp
qed

text \<open>
  C9. After the games \<open>gs\<close> have been appended to the (initially empty) crash history,
  the history holds at most \<open>MaxGameHistory = 10\<close> games, and it is exactly the last
  \<open>min (length gs) 10\<close> games of \<open>gs\<close> in the order they were appended: the oldest games
  are the ones dropped.
\<close>

theorem history_keeps_last_ten:
  "historyAfter gs = drop (length gs - MaxGameHistory) gs
   \<and> length (historyAfter gs) = min (length gs) 10
   \<and> length (historyAfter gs) \<le> MaxGameHistory"
proof -
  have "historyAfter gs = drop (length gs - MaxGameHistory) gs"
    using foldl_addToHistory [of "[]" gs] by (simp add: historyAfter_def)
  then show ?thesis by (auto simp: MaxGameHistory_def)
qed

section \<open>Proofs: the generator heap and determinism\<close>

lemma alike_resE:
  assumes "alike_res a a' p p'"
  obtains x h h' where "p = (x, h)" "p' = (x, h')" "alike a h a' h'"
  using assms by (cases p; cases p') (auto simp: alike_res_def)

lemma Float64_alike:
  "alike a h a' h' \<Longrightarrow> alike_res a a' (Float64 L a h) (Float64 L a' h')"
  by (simp add: alike_def alike_res_def Float64_def)

lemma NewSeededRNG_alike:
  "NewSeededRNG L s h = (a, h1) \<Longrightarrow> NewSeededRNG L s h' = (a', h1') \<Longrightarrow> alike a h1 a' h1'"
  by (auto simp: NewSeededRNG_def alike_def Let_def)

lemma same_flow_cases:
  assumes "same_flow a a' f f'"
  obtains (Break) w h1 h1' where "f = Break (w, h1)" "f' = Break (w, h1')" "alike a h1 a' h1'"
    | (Continue) w h1 h1' where "f = Continue (w, h1)" "f' = Continue (w, h1')"
        "alike a h1 a' h1'"
  using assms by (cases f; cases f') (auto simp: alike_res_def)

subsection \<open>The version with a peak from a sub-seed\<close>

lemma rugCheckP_alike:
  "alike a h a' h' \<Longrightarrow> alike_res a a' (rugCheckP L a v h) (rugCheckP L a' v h')"
  by (simp add: alike_def alike_res_def rugCheckP_def Float64_def Let_def)

lemma godCandleP_alike:
  "alike a h a' h' \<Longrightarrow> alike_res a a' (godCandleP L a v h) (godCandleP L a' v h')"
  by (simp add: alike_def alike_res_def godCandleP_def Float64_def Let_def)

lemma changeP_alike:
  "alike a h a' h' \<Longrightarrow> alike_res a a' (changeP L a v h) (changeP L a' v h')"
  by (simp add: alike_def alike_res_def changeP_def Float64_def Let_def)

lemma tickP_body_alike:
  assumes A: "alike a h a' h'"
  shows "same_flow a a' (tickP_body L a pk v h) (tickP_body L a' pk v h')"
proof -
  define w where "w = (if priceP v \<ge> pk then v\<lparr> reachedPredeterminedPeak := True \<rparr> else v)"
  have body: "tickP_body L b pk v hh =
      (case rugCheckP L b v hh of (rug, h1) \<Rightarrow>
         if rug then Break (v, h1)
         else (case Float64 L b h1 of (g, h2) \<Rightarrow>
           if g < GodCandleChance \<and> priceP w \<le> 100 then Continue (godCandleP L b w h2)
           else (case changeP L b w h2 of (c, h3) \<Rightarrow> Continue (applyChangeP w c, h3))))"
    for b hh
    unfolding tickP_body_def Let_def w_def by (rule refl)
  from rugCheckP_alike [OF A, of L v]
  obtain rug h1 h1' where r: "rugCheckP L a v h = (rug, h1)" "rugCheckP L a' v h' = (rug, h1')"
    and A1: "alike a h1 a' h1'" by (rule alike_resE)
  show ?thesis
  proof (cases rug)
    case True
    with r A1 show ?thesis by (simp add: body alike_res_def)
  next
    case False
    from Float64_alike [OF A1, of L]
    obtain g h2 h2' where g: "Float64 L a h1 = (g, h2)" "Float64 L a' h1' = (g, h2')"
      and A2: "alike a h2 a' h2'" by (rule alike_resE)
    show ?thesis
    proof (cases "g < GodCandleChance \<and> priceP w \<le> 100")
      case True
      with False r g godCandleP_alike [OF A2, of L w] show ?thesis
        by (simp add: body)
    next
      case no_god: False
      from changeP_alike [OF A2, of L w]
      obtain c h3 h3' where c: "changeP L a w h2 = (c, h3)" "changeP L a' w h2' = (c, h3')"
        and A3: "alike a h3 a' h3'" by (rule alike_resE)
      with False no_god r g show ?thesis
        by (auto simp: body alike_res_def)
    qed
  qed
qed

lemma loopP_alike:
  "alike a h a' h' \<Longrightarrow> alike_res a a' (loopP L a pk v h) (loopP L a' pk v h')"
proof (induction L a pk v h arbitrary: h' rule: loopP.induct)
  case (1 L a pk v h)
  show ?case
  proof (cases "tickP v < 10000")
    case False
    then have "loopP L a pk v h = (v, h)" "loopP L a' pk v h' = (v, h')"
      by (subst loopP.simps, simp)+
    with "1.prems" show ?thesis by (simp add: alike_res_def)
  next
    case True
    from tickP_body_alike [OF "1.prems", of L pk v] show ?thesis
    proof (cases rule: same_flow_cases)
      case (Break w h1 h1')
      have "loopP L a pk v h = (w, h1)"
        using True Break(1) by (subst loopP.simps) simp
      moreover have "loopP L a' pk v h' = (w, h1')"
        using True Break(2) by (subst loopP.simps) simp
      ultimately show ?thesis using Break(3) by (simp add: alike_res_def)
    next
      case (Continue w h1 h1')
      have "loopP L a pk v h = loopP L a pk w h1"
        using True Continue(1) by (subst loopP.simps) simp
      moreover have "loopP L a' pk v h' = loopP L a' pk w h1'"
        using True Continue(2) by (subst loopP.simps) simp
      ultimately show ?thesis
        using "1.IH" [OF True Continue(1) refl Continue(3)] by simp
    qed
  qed
qed

lemma GeneratePeakMultiplier_heap_free:
  "fst (GeneratePeakMultiplier L s g h) = fst (GeneratePeakMultiplier L s g h')"
  by (simp add: GeneratePeakMultiplier_def NewSeededRNG_def Float64_def Let_def)

lemma CalculateGameP_heap_free:
  "fst (CalculateGameP L s g h) = fst (CalculateGameP L s g h')"
proof -
  obtain pk h1 where p: "GeneratePeakMultiplier L s g h = (pk, h1)" by force
  obtain pk' h1' where p': "GeneratePeakMultiplier L s g h' = (pk', h1')" by force
  from p p' GeneratePeakMultiplier_heap_free [of L s g h h'] have pk: "pk' = pk" by simp
  obtain a h2 where n: "NewSeededRNG L (s @ ''-'' @ g) h1 = (a, h2)" by force
  obtain a' h2' where n': "NewSeededRNG L (s @ ''-'' @ g) h1' = (a', h2')" by force
  note A = NewSeededRNG_alike [OF n n']
  let ?v = "\<lparr> priceP = StartingPrice, peakP = StartingPrice, tickP = 0, momentumP = 0.0,
                reachedPredeterminedPeak = False \<rparr>"
  from loopP_alike [OF A, of L pk ?v]
  have "fst (loopP L a pk ?v h2) = fst (loopP L a' pk ?v h2')" by (simp add: alike_res_def)
  with p p' pk n n' show ?thesis
    by (cases "loopP L a pk ?v h2"; cases "loopP L a' pk ?v h2'")
       (simp add: CalculateGameP_def Let_def)
qed

subsection \<open>The version of game/engine.go\<close>

lemma rugCheckE_alike:
  "alike a h a' h' \<Longrightarrow> alike_res a a' (rugCheckE L a v h) (rugCheckE L a' v h')"
  by (simp add: alike_def alike_res_def rugCheckE_def Float64_def Let_def)

lemma changeE_alike:
  "alike a h a' h' \<Longrightarrow> alike_res a a' (changeE L a p h) (changeE L a' p h')"
  by (simp add: alike_def alike_res_def changeE_def Float64_def Let_def)

lemma tickE_body_alike:
  assumes A: "alike a h a' h'"
  shows "same_flow a a' (tickE_body L a v h) (tickE_body L a' v h')"
proof -
  have body: "tickE_body L b v hh =
      (case rugCheckE L b v hh of (rug, h1) \<Rightarrow>
         if rug then Break (v\<lparr> ruggedE := True \<rparr>, h1)
         else (case Float64 L b h1 of (g, h2) \<Rightarrow>
           if g < GodCandleChance \<and> priceE v \<le> 100 then Continue (godCandleE v, h2)
           else (case changeE L b (priceE v) h2 of (c, h3) \<Rightarrow>
             Continue (applyChangeE v c, h3))))"
    for b hh
    unfolding tickE_body_def Let_def by (rule refl)
  from rugCheckE_alike [OF A, of L v]
  obtain rug h1 h1' where r: "rugCheckE L a v h = (rug, h1)" "rugCheckE L a' v h' = (rug, h1')"
    and A1: "alike a h1 a' h1'" by (rule alike_resE)
  show ?thesis
  proof (cases rug)
    case True
    with r A1 show ?thesis by (simp add: body alike_res_def)
  next
    case False
    from Float64_alike [OF A1, of L]
    obtain g h2 h2' where g: "Float64 L a h1 = (g, h2)" "Float64 L a' h1' = (g, h2')"
      and A2: "alike a h2 a' h2'" by (rule alike_resE)
    from changeE_alike [OF A2, of L "priceE v"]
    obtain c h3 h3' where c: "changeE L a (priceE v) h2 = (c, h3)"
        "changeE L a' (priceE v) h2' = (c, h3')"
      and A3: "alike a h3 a' h3'" by (rule alike_resE)
    from False r g c A2 A3 show ?thesis
      by (auto simp: body alike_res_def)
  qed
qed

lemma loopE_alike:
  "alike a h a' h' \<Longrightarrow> alike_res a a' (loopE L a v h) (loopE L a' v h')"
proof (induction L a v h arbitrary: h' rule: loopE.induct)
  case (1 L a v h)
  show ?case
  proof (cases "tickE v < MaxTicks")
    case False
    then have "loopE L a v h = (v, h)" "loopE L a' v h' = (v, h')"
      by (subst loopE.simps, simp)+
    with "1.prems" show ?thesis by (simp add: alike_res_def)
  next
    case True
    from tickE_body_alike [OF "1.prems", of L v] show ?thesis
    proof (cases rule: same_flow_cases)
      case (Break w h1 h1')
      have "loopE L a v h = (w, h1)"
        using True Break(1) by (subst loopE.simps) simp
      moreover have "loopE L a' v h' = (w, h1')"
        using True Break(2) by (subst loopE.simps) simp
      ultimately show ?thesis using Break(3) by (simp add: alike_res_def)
    next
      case (Continue w h1 h1')
      have "loopE L a v h = loopE L a w h1"
        using True Continue(1) by (subst loopE.simps) simp
      moreover have "loopE L a' v h' = loopE L a' w h1'"
        using True Continue(2) by (subst loopE.simps) simp
      ultimately show ?thesis
        using "1.IH" [OF True Continue(1) refl Continue(3)] by simp
    qed
  qed
qed

lemma CalculateGame_heap_free:
  "fst (CalculateGame L s g h) = fst (CalculateGame L s g h')"
proof -
  obtain a h2 where n: "NewSeededRNG L (s @ ''-'' @ g) h = (a, h2)" by force
  obtain a' h2' where n': "NewSeededRNG L (s @ ''-'' @ g) h' = (a', h2')" by force
  note A = NewSeededRNG_alike [OF n n']
  let ?v = "\<lparr> priceE = StartingPrice, peakE = StartingPrice, tickE = 0, ruggedE = False,
                momentumE = 0.0 \<rparr>"
  from loopE_alike [OF A, of L ?v]
  have "fst (loopE L a ?v h2) = fst (loopE L a' ?v h2')" by (simp add: alike_res_def)
  with n n' show ?thesis
    by (cases "loopE L a ?v h2"; cases "loopE L a' ?v h2'")
       (simp add: CalculateGame_def Let_def)
qed

subsection \<open>The sequence of a seeded generator\<close>

lemma drawN_sequence:
  "rng < length h \<Longrightarrow>
     fst (drawN L rng n h)
       = map (\<lambda>k. float_at L (src_seed (h ! rng)) (drawn (h ! rng) + k)) [0 ..< n]"
proof (induction n arbitrary: h)
  case 0
  then show ?case by simp
next
  case (Suc n)
  let ?h' = "snd (Float64 L rng h)"
  have len: "rng < length ?h'" using Suc.prems by (simp add: Float64_def)
  have obj: "?h' ! rng = (h ! rng)\<lparr> drawn := drawn (h ! rng) + 1 \<rparr>"
    using Suc.prems by (simp add: Float64_def)
  have step: "fst (drawN L rng (Suc n) h) = fst (Float64 L rng h) # fst (drawN L rng n ?h')"
    by (simp add: split_def)
  have rest: "fst (drawN L rng n ?h')
      = map (\<lambda>k. float_at L (src_seed (h ! rng)) (drawn (h ! rng) + Suc k)) [0 ..< n]"
    using Suc.IH [OF len] by (simp add: obj)
  have "fst (drawN L rng (Suc n) h) = float_at L (src_seed (h ! rng)) (drawn (h ! rng))
      # map (\<lambda>k. float_at L (src_seed (h ! rng)) (drawn (h ! rng) + Suc k)) [0 ..< n]"
    unfolding step rest by (simp add: Float64_def)
  also have "\<dots> = map (\<lambda>k. float_at L (src_seed (h ! rng)) (drawn (h ! rng) + k)) [0 ..< Suc n]"
    by (simp add: upt_rec [of 0 "Suc n"] map_Suc_upt [symmetric] del: upt_Suc)
  finally show ?case .
qed

text \<open>
  C1. The crash simulation is a function of the server seed and the game id alone:
  whatever generator objects the heap already holds (in particular, the ones that an
  earlier run of the same simulation left behind), \<open>CalculateGame\<close> returns the same
  result record, in the version with the peak from a sub-seed (peak, final price, tick
  count) and in the version of game/engine.go (which also reports the rugged flag). The
  generator that \<open>NewSeededRNG\<close> creates is determined by the digest of the seed string,
  and any number \<open>n\<close> of draws from it is the same sequence, on any heap.
\<close>

theorem CalculateGame_deterministic:
  "fst (CalculateGameP L serverSeed gameID h) = fst (CalculateGameP L serverSeed gameID h')
   \<and> fst (CalculateGameP L serverSeed gameID (snd (CalculateGameP L serverSeed gameID h)))
       = fst (CalculateGameP L serverSeed gameID h)
   \<and> fst (CalculateGame L serverSeed gameID h) = fst (CalculateGame L serverSeed gameID h')
   \<and> fst (CalculateGame L serverSeed gameID (snd (CalculateGame L serverSeed gameID h)))
       = fst (CalculateGame L serverSeed gameID h)
   \<and> fst (drawN L (fst (NewSeededRNG L seed h)) n (snd (NewSeededRNG L seed h)))
       = map (float_at L (BigEndian_Uint64 (take 8 (sha256_sum L seed)))) [0 ..< n]"
proof -
  have "fst (drawN L (fst (NewSeededRNG L seed h)) n (snd (NewSeededRNG L seed h)))
       = map (float_at L (BigEndian_Uint64 (take 8 (sha256_sum L seed)))) [0 ..< n]"
    by (subst drawN_sequence) (simp_all add: NewSeededRNG_def Let_def)
  then show ?thesis
    using CalculateGameP_heap_free [of L serverSeed gameID] CalculateGame_heap_free [of L serverSeed gameID]
    by simp
qed

section \<open>Proofs: the price and the predetermined peak\<close>

lemma be6: "BigEndian_Uint64 (replicate 8 6) = 0x0606060606060606"
  by (simp add: BigEndian_Uint64_def)

lemma be11: "BigEndian_Uint64 (replicate 8 11) = 0x0B0B0B0B0B0B0B0B"
  by (simp add: BigEndian_Uint64_def)

lemma cyclic_nonneg: "\<forall>x \<in> set xs. 0 \<le> x \<Longrightarrow> xs \<noteq> [] \<Longrightarrow> 0 \<le> cyclic xs k n"
  by (simp add: cyclic_def)

lemma demo_lib_nonneg:
  "\<forall>n. 0 \<le> m n \<Longrightarrow> \<forall>n. 0 \<le> s n \<Longrightarrow> \<forall>k n. 0 \<le> float_at (demo_lib m s) k n"
  by (simp add: demo_lib_def)

lemmas engine_consts = StartingPrice_def RugProb_def MaxTicks_def GodCandleChance_def
  GodCandleMult_def BigMoveChance_def BigMoveMin_def BigMoveMax_def DriftMin_def DriftMax_def

lemmas peak_consts = RugProbBeforePeak_def RugProbAfterPeak_def PeakVeryLow_def PeakLow_def
  PeakMedium_def PeakHigh_def PeakExtreme_def PeakMin_def PeakVeryLowMax_def PeakLowMax_def
  PeakMediumMax_def PeakHighMax_def PeakExtremeMax_def

subsection \<open>The version with a peak from a sub-seed has no cap\<close>

lemma demo_run_sub_seed:
  "fst (CalculateGameP (demo_lib (cyclic [0.5, 0.05, 0, 0.3] 84) (cyclic [0.2] 1))
       ''abc'' ''g1'' [])
     = \<lparr> PeakMultiplierP = 6 / 5, FinalPriceP = (27 / 25) ^ 21, TotalTicksP = 21,
         ServerSeedP = ''abc'', GameIDP = ''g1'' \<rparr>"
  by (simp add: CalculateGameP_def GeneratePeakMultiplier_def NewSeededRNG_def Let_def
      demo_lib_def be6 be11 cyclic_def loopP.simps tickP_body_def rugCheckP_def godCandleP_def
      changeP_def applyChangeP_def Float64_def engine_consts peak_consts power_divide)

text \<open>
  C2, as stated, fails in the version that draws the peak from the sub-seed. In this run
  the sub-seed generator draws \<open>0.2\<close>, so the predetermined peak is \<open>1.2\<close>; the main
  generator draws, at each of the first 21 ticks, no god candle (\<open>0.5\<close>), a big move
  (\<open>0.05\<close>) of the least size (\<open>0\<close>) upwards (\<open>0.3\<close>), and then \<open>0\<close>, so the rug check of
  tick 21 fires. The price after the last tick is \<open>1.08 ^ 21\<close>, above the peak.
\<close>

theorem price_exceeds_sub_seed_peak:
  "PeakMultiplierP (fst (CalculateGameP
       (demo_lib (cyclic [0.5, 0.05, 0, 0.3] 84) (cyclic [0.2] 1)) ''abc'' ''g1'' [])) = 6 / 5
   \<and> TotalTicksP (fst (CalculateGameP
       (demo_lib (cyclic [0.5, 0.05, 0, 0.3] 84) (cyclic [0.2] 1)) ''abc'' ''g1'' [])) = 21
   \<and> PeakMultiplierP (fst (CalculateGameP
       (demo_lib (cyclic [0.5, 0.05, 0, 0.3] 84) (cyclic [0.2] 1)) ''abc'' ''g1'' []))
     < FinalPriceP (fst (CalculateGameP
       (demo_lib (cyclic [0.5, 0.05, 0, 0.3] 84) (cyclic [0.2] 1)) ''abc'' ''g1'' []))"
  unfolding demo_run_sub_seed by (simp add: power_divide)

subsection \<open>The version with a target peak caps the price\<close>

lemma growthTick_seen_ok:
  "seen_ok pk v \<Longrightarrow> seen_ok pk (fst (growthTick L rng pk v h))"
  by (simp add: growthTick_def seen_ok_def Let_def split_def)

lemma growthTick_price: "priceT (fst (growthTick L rng pk v h)) \<le> pk"
  by (simp add: growthTick_def Let_def split_def)

lemma growthLoop_inv:
  "seen_ok pk v \<Longrightarrow> priceT v \<le> pk \<Longrightarrow>
     seen_ok pk (fst (growthLoop L rng pk v h)) \<and> priceT (fst (growthLoop L rng pk v h)) \<le> pk"
proof (induction L rng pk v h rule: growthLoop.induct)
  case (1 L rng targetPeak v h)
  show ?case
  proof (cases "tickT v < MaxTicks \<and> \<not> peakReachedT v")
    case False
    then have "growthLoop L rng targetPeak v h = (v, h)"
      by (subst growthLoop.simps) auto
    with "1.prems" show ?thesis by simp
  next
    case True
    obtain v' h' where t: "growthTick L rng targetPeak v h = (v', h')" by force
    from True t have eq: "growthLoop L rng targetPeak v h = growthLoop L rng targetPeak v' h'"
      by (subst growthLoop.simps) simp
    have "seen_ok targetPeak v'" "priceT v' \<le> targetPeak"
      using growthTick_seen_ok [OF "1.prems"(1), of L rng h] growthTick_price [of L rng targetPeak v h] t
      by simp_all
    with "1.IH" [OF True t [symmetric]] show ?thesis by (simp add: eq)
  qed
qed

lemma declineTick_inv:
  assumes "seen_ok pk v"
  shows "case declineTick L rng pk v h of
           Break (v', h') \<Rightarrow> seen_ok pk v' \<and> priceT v' = priceT v
         | Continue (v', h') \<Rightarrow> seen_ok pk v' \<and> priceT v' \<le> pk"
  using assms by (simp add: declineTick_def seen_ok_def Let_def split_def)

lemma declineLoop_inv:
  "seen_ok pk v \<Longrightarrow> priceT v \<le> pk \<Longrightarrow>
     seen_ok pk (fst (declineLoop L rng pk v h)) \<and> priceT (fst (declineLoop L rng pk v h)) \<le> pk"
proof (induction L rng pk v h rule: declineLoop.induct)
  case (1 L rng targetPeak v h)
  show ?case
  proof (cases "tickT v < MaxTicks")
    case False
    then have "declineLoop L rng targetPeak v h = (v, h)"
      by (subst declineLoop.simps) simp
    with "1.prems" show ?thesis by simp
  next
    case True
    note inv = declineTick_inv [OF "1.prems"(1), of L rng h]
    show ?thesis
    proof (cases "declineTick L rng targetPeak v h")
      case (Break p)
      obtain v' h' where p: "p = (v', h')" by force
      from True Break p have "declineLoop L rng targetPeak v h = (v', h')"
        by (subst declineLoop.simps) simp
      with inv Break p "1.prems" show ?thesis by simp
    next
      case (Continue p)
      obtain v' h' where p: "p = (v', h')" by force
      from True Continue p
      have eq: "declineLoop L rng targetPeak v h = declineLoop L rng targetPeak v' h'"
        by (subst declineLoop.simps) simp
      from inv Continue p have "seen_ok targetPeak v'" "priceT v' \<le> targetPeak" by simp_all
      with "1.IH" [OF True Continue [unfolded p] refl] show ?thesis by (simp add: eq)
    qed
  qed
qed

text \<open>Without the bound on the starting price: the recorded prices alone.\<close>

lemma growthLoop_seen_ok:
  "seen_ok pk v \<Longrightarrow> seen_ok pk (fst (growthLoop L rng pk v h))"
proof (induction L rng pk v h rule: growthLoop.induct)
  case (1 L rng targetPeak v h)
  show ?case
  proof (cases "tickT v < MaxTicks \<and> \<not> peakReachedT v")
    case False
    then have "growthLoop L rng targetPeak v h = (v, h)"
      by (subst growthLoop.simps) auto
    with "1.prems" show ?thesis by simp
  next
    case True
    obtain v' h' where t: "growthTick L rng targetPeak v h = (v', h')" by force
    from True t have eq: "growthLoop L rng targetPeak v h = growthLoop L rng targetPeak v' h'"
      by (subst growthLoop.simps) simp
    have "seen_ok targetPeak v'"
      using growthTick_seen_ok [OF "1.prems"(1), of L rng h] t by simp
    with "1.IH" [OF True t [symmetric]] show ?thesis by (simp add: eq)
  qed
qed

lemma declineLoop_seen_ok:
  "seen_ok pk v \<Longrightarrow> seen_ok pk (fst (declineLoop L rng pk v h))"
proof (induction L rng pk v h rule: declineLoop.induct)
  case (1 L rng targetPeak v h)
  show ?case
  proof (cases "tickT v < MaxTicks")
    case False
    then have "declineLoop L rng targetPeak v h = (v, h)"
      by (subst declineLoop.simps) simp
    with "1.prems" show ?thesis by simp
  next
    case True
    note inv = declineTick_inv [OF "1.prems"(1), of L rng h]
    show ?thesis
    proof (cases "declineTick L rng targetPeak v h")
      case (Break p)
      obtain v' h' where p: "p = (v', h')" by force
      from True Break p have "declineLoop L rng targetPeak v h = (v', h')"
        by (subst declineLoop.simps) simp
      with inv Break p show ?thesis by simp
    next
      case (Continue p)
      obtain v' h' where p: "p = (v', h')" by force
      from True Continue p
      have eq: "declineLoop L rng targetPeak v h = declineLoop L rng targetPeak v' h'"
        by (subst declineLoop.simps) simp
      from inv Continue p have "seen_ok targetPeak v'" by simp
      with "1.IH" [OF True Continue [unfolded p] refl] show ?thesis by (simp add: eq)
    qed
  qed
qed

lemma determineTargetPeak_ge_1:
  assumes "\<forall>k n. 0 \<le> float_at L k n"
  shows "1 \<le> fst (determineTargetPeak L rng h)"
proof -
  have "0 \<le> fst (Float64 L rng (snd (Float64 L rng h)))"
    using assms by (simp add: Float64_def)
  then show ?thesis
    by (simp add: determineTargetPeak_def Let_def split_def)
qed

lemma simulateT_unfold:
  "simulateT L serverSeed gameID h =
     (let r = NewSeededRNG L (serverSeed @ ''-'' @ gameID) h;
          t = determineTargetPeak L (fst r) (snd r);
          v0 = \<lparr> priceT = StartingPrice, tickT = 0, ruggedT = False,
                 peakReachedT = (StartingPrice \<ge> fst t), seenT = [] \<rparr>;
          g = (if \<not> peakReachedT v0 then growthLoop L (fst r) (fst t) v0 (snd t)
               else (v0, snd t));
          d = declineLoop L (fst r) (fst t) (fst g) (snd g)
      in ((fst t, fst d), snd d))"
  by (simp add: simulateT_def Let_def split_def)

text \<open>
  C2, amended. In the version of \<open>CalculateGame\<close> that draws its target peak with
  \<open>determineTargetPeak\<close>, the price at the end of every tick, in the growth phase and in
  the decline phase, is at most the target peak, which is the \<open>PeakMultiplier\<close> of the
  result; every tick is recorded; and when the generator's values are not negative the
  starting price and the final price are at most the target peak too.
\<close>

theorem price_capped_at_target_peak:
  assumes "simulateT L serverSeed gameID h = ((targetPeak, v), h')"
  shows "(\<forall>p \<in> set (seenT v). p \<le> targetPeak)
     \<and> length (seenT v) = tickT v
     \<and> fst (CalculateGameT L serverSeed gameID h)
         = \<lparr> PeakMultiplier = targetPeak, FinalPrice = priceT v, Rugged = ruggedT v,
             TotalTicks = tickT v \<rparr>
     \<and> ((\<forall>k n. 0 \<le> float_at L k n) \<longrightarrow> StartingPrice \<le> targetPeak \<and> priceT v \<le> targetPeak)"
proof -
  define r where "r = NewSeededRNG L (serverSeed @ ''-'' @ gameID) h"
  define t where "t = determineTargetPeak L (fst r) (snd r)"
  define v0 where "v0 = \<lparr> priceT = StartingPrice, tickT = 0, ruggedT = False,
                 peakReachedT = (StartingPrice \<ge> fst t), seenT = [] \<rparr>"
  define g where "g = (if \<not> peakReachedT v0 then growthLoop L (fst r) (fst t) v0 (snd t)
               else (v0, snd t))"
  define d where "d = declineLoop L (fst r) (fst t) (fst g) (snd g)"
  have sim: "simulateT L serverSeed gameID h = ((fst t, fst d), snd d)"
    unfolding simulateT_unfold Let_def r_def t_def v0_def g_def d_def by (rule refl)
  with assms have tp: "targetPeak = fst t" and v: "v = fst d" by simp_all
  have s0: "seen_ok (fst t) v0" by (simp add: seen_ok_def v0_def)
  have sg: "seen_ok (fst t) (fst g)"
    using s0 growthLoop_seen_ok [OF s0, of L "fst r" "snd t"] by (simp add: g_def)
  have sd: "seen_ok (fst t) (fst d)"
    unfolding d_def by (rule declineLoop_seen_ok [OF sg])
  have res: "fst (CalculateGameT L serverSeed gameID h)
         = \<lparr> PeakMultiplier = targetPeak, FinalPrice = priceT v, Rugged = ruggedT v,
             TotalTicks = tickT v \<rparr>"
    by (simp add: CalculateGameT_def assms)
  have bound: "StartingPrice \<le> fst t \<and> priceT (fst d) \<le> fst t" if nn: "\<forall>k n. 0 \<le> float_at L k n"
  proof -
    have t1: "StartingPrice \<le> fst t"
      using determineTargetPeak_ge_1 [OF nn, of "fst r" "snd r"] by (simp add: t_def StartingPrice_def)
    then have p0: "priceT v0 \<le> fst t" by (simp add: v0_def)
    have pg: "priceT (fst g) \<le> fst t"
      using p0 growthLoop_inv [OF s0 p0, of L "fst r" "snd t"] by (simp add: g_def)
    have "priceT (fst d) \<le> fst t"
      unfolding d_def using declineLoop_inv [OF sg pg] by simp
    with t1 show ?thesis by simp
  qed
  from sd res bound show ?thesis by (simp add: seen_ok_def tp v)
qed

theorem price_capped_at_target_peak_witness:
  "(\<forall>k n. 0 \<le> float_at (demo_lib (cyclic [0.5, 0, 0.5, 0.05, 0, 0.5, 0.05, 0, 0.5, 0.05, 0,
        0.5, 0.05, 0, 0.5, 0.05, 0, 0.5, 0.05, 0, 0.5, 0.05, 0, 0.3] 24) (\<lambda>n. 0)) k n)
   \<and> simulateT (demo_lib (cyclic [0.5, 0, 0.5, 0.05, 0, 0.5, 0.05, 0, 0.5, 0.05, 0, 0.5, 0.05, 0,
        0.5, 0.05, 0, 0.5, 0.05, 0, 0.5, 0.05, 0, 0.3] 24) (\<lambda>n. 0)) ''abc'' ''g1'' []
     = ((3 / 2, \<lparr> priceT = 69 / 50, tickT = 7, ruggedT = True, peakReachedT = True,
           seenT = [27 / 25, (27 / 25) ^ 2, (27 / 25) ^ 3, (27 / 25) ^ 4, (27 / 25) ^ 5,
                    3 / 2, 69 / 50] \<rparr>),
        [\<lparr> src_seed = 0x0606060606060606, drawn = 25 \<rparr>])
   \<and> fst (CalculateGameT (demo_lib (cyclic [0.5, 0, 0.5, 0.05, 0, 0.5, 0.05, 0, 0.5, 0.05, 0,
        0.5, 0.05, 0, 0.5, 0.05, 0, 0.5, 0.05, 0, 0.5, 0.05, 0, 0.3] 24) (\<lambda>n. 0)) ''abc'' ''g1'' [])
     = \<lparr> PeakMultiplier = 3 / 2, FinalPrice = 69 / 50, Rugged = True, TotalTicks = 7 \<rparr>"
proof -
  let ?L = "demo_lib (cyclic [0.5, 0, 0.5, 0.05, 0, 0.5, 0.05, 0, 0.5, 0.05, 0, 0.5, 0.05, 0,
        0.5, 0.05, 0, 0.5, 0.05, 0, 0.5, 0.05, 0, 0.3] 24) (\<lambda>n. 0)"
  have nonneg: "\<forall>k n. 0 \<le> float_at ?L k n"
    by (rule demo_lib_nonneg) (simp_all add: cyclic_nonneg)
  have run: "simulateT ?L ''abc'' ''g1'' []
     = ((3 / 2, \<lparr> priceT = 69 / 50, tickT = 7, ruggedT = True, peakReachedT = True,
           seenT = [27 / 25, (27 / 25) ^ 2, (27 / 25) ^ 3, (27 / 25) ^ 4, (27 / 25) ^ 5,
                    3 / 2, 69 / 50] \<rparr>),
        [\<lparr> src_seed = 0x0606060606060606, drawn = 25 \<rparr>])"
    by (simp add: simulateT_def determineTargetPeak_def NewSeededRNG_def Let_def
        demo_lib_def be6 cyclic_def growthLoop.simps growthTick_def growthChange_def
        declineLoop.simps declineTick_def declineChange_def Float64_def engine_consts
        power_divide)
  from price_capped_at_target_peak [OF run] run nonneg show ?thesis by simp
qed

section \<open>Proofs: the peak and the verifier\<close>

text \<open>
  The peak that the version with the sub-seed reports is the value of
  \<open>GeneratePeakMultiplier\<close>, which reads nothing but the first draw of the generator
  seeded with the \<open>-peak\<close> string: whatever the heap holds, and so however many draws
  the main generator has made, it is the same.
\<close>

lemma GeneratePeakMultiplier_draw:
  "fst (GeneratePeakMultiplier L s g h)
     = fst (GeneratePeakMultiplier L s g []) \<and>
   fst (Float64 L 0 (snd (NewSeededRNG L (s @ ''-'' @ g @ ''-peak'') [])))
     = float_at L (BigEndian_Uint64 (take 8 (sha256_sum L (s @ ''-'' @ g @ ''-peak'')))) 0"
  by (simp add: GeneratePeakMultiplier_heap_free [of L s g h "[]"] NewSeededRNG_def
      Float64_def Let_def)

lemma peak_after_main_draws:
  "PeakMultiplierP (fst (CalculateGameP L s g h))
     = fst (GeneratePeakMultiplier L s g (snd (drawN L rng n h')))"
proof -
  have "PeakMultiplierP (fst (CalculateGameP L s g h)) = fst (GeneratePeakMultiplier L s g h)"
    by (simp add: CalculateGameP_def Let_def split_def)
  then show ?thesis
    by (simp add: GeneratePeakMultiplier_heap_free [of L s g h "snd (drawN L rng n h')"])
qed

text \<open>
  C3. The verifier of game/verify.go does not compute the peak of the simulation that
  draws it from the sub-seed: it draws twice from the main generator and uses the bands
  of \<open>determineTargetPeak\<close>. In this run the main generator starts \<open>0.5, 0.05\<close> and the
  sub-seed generator \<open>0.2\<close>: the verifier answers \<open>1.575\<close>, the simulation \<open>1.2\<close>.
\<close>

theorem verifier_peak_differs:
  "fst (VerifyGamePeak (demo_lib (cyclic [0.5, 0.05, 0, 0.3] 84) (cyclic [0.2] 1))
       ''abc'' ''g1'' []) = 63 / 40
   \<and> PeakMultiplierP (fst (CalculateGameP
       (demo_lib (cyclic [0.5, 0.05, 0, 0.3] 84) (cyclic [0.2] 1)) ''abc'' ''g1'' [])) = 6 / 5"
proof -
  have "fst (VerifyGamePeak (demo_lib (cyclic [0.5, 0.05, 0, 0.3] 84) (cyclic [0.2] 1))
       ''abc'' ''g1'' []) = 63 / 40"
    by (simp add: VerifyGamePeak_def determineTargetPeak_def NewSeededRNG_def Let_def
        demo_lib_def be6 cyclic_def Float64_def)
  then show ?thesis unfolding demo_run_sub_seed by simp
qed

section \<open>Proofs: the rugged flag of game/engine.go\<close>







section \<open>Proofs: the candles of a crash game\<close>

text \<open>
  A game of eleven ticks, half a second apart. At every tick the generator draws no rug
  (\<open>0.5\<close>), no god candle (\<open>0.5\<close>) and a big move (\<open>0.05\<close>) of the least size (\<open>0\<close>)
  upwards (\<open>0.9\<close>); its next draw is \<open>0\<close>, so the game rugs at tick 11. The first
  candle is completed at tick 10, when five seconds have passed: its maximum is the
  price of tick 9, and its close is read through \<^verbatim>\<open>&price\<close> after \<^verbatim>\<open>price\<close> has
  received the price of tick 10.
\<close>

lemma demo_run_crash_loop:
  "map_option (\<lambda>(v, h). (ruggedW v, tickW v, groupsW v))
     (runCrashGame (demo_lib (cyclic [0.5, 0.5, 0.05, 0, 0.9] 55) (\<lambda>n. 0))
        (\<lambda>t. 500 * of_nat t) 0 ''abc'' ''g1'' [])
   = Some (True, 11,
       [\<lparr> Open = 27 / 25, Close = AddrConst ((27 / 25) ^ 11), Max_f = (27 / 25) ^ 10,
           Min_f = 27 / 25, ValueList = [], StartTime = 0, DurationMs = 5000,
           IsComplete = True \<rparr>,
        \<lparr> Open = (27 / 25) ^ 11, Close = AddrConst 0, Max_f = (27 / 25) ^ 11, Min_f = 0,
           ValueList = [], StartTime = 5000, DurationMs = 5000, IsComplete = True \<rparr>])"
  by (simp add: runCrashGame_def NewSeededRNG_def Let_def demo_lib_def be6 cyclic_def
      loopW.simps tickW_body_def movePriceW_def changeW_def candleGrouping_def
      completeFinalGroup_def newGroup_def frozen_def Float64_def engine_consts
      InitialGroupDurationMs_def MergeThreshold_def word_sle_eq power_divide)

text \<open>
  C6. The candle invariant fails for a candle completed during the game: in the run
  above the first completed candle has \<open>max = 1.08 ^ 10\<close> and \<open>close = 1.08 ^ 11\<close>. (The
  final candle of the rugged game, with close and minimum \<open>0\<close>, satisfies it.)
\<close>

theorem completed_candle_close_above_max:
  "(case runCrashGame (demo_lib (cyclic [0.5, 0.5, 0.05, 0, 0.9] 55) (\<lambda>n. 0))
          (\<lambda>t. 500 * of_nat t) 0 ''abc'' ''g1'' [] of
      None \<Rightarrow> False
    | Some (v, h) \<Rightarrow>
        length (groupsW v) = 2
        \<and> IsComplete (groupsW v ! 0)
        \<and> Max_f (groupsW v ! 0) = (27 / 25) ^ 10
        \<and> deref (priceW v) (Close (groupsW v ! 0)) = Some ((27 / 25) ^ 11)
        \<and> \<not> candle_ok (priceW v) (groupsW v ! 0)
        \<and> candle_ok (priceW v) (groupsW v ! 1))"
proof (cases "runCrashGame (demo_lib (cyclic [0.5, 0.5, 0.05, 0, 0.9] 55) (\<lambda>n. 0))
          (\<lambda>t. 500 * of_nat t) 0 ''abc'' ''g1'' []")
  case None
  with demo_run_crash_loop show ?thesis by simp
next
  case (Some p)
  obtain v h where p: "p = (v, h)" by force
  from demo_run_crash_loop Some p
  have "groupsW v =
       [\<lparr> Open = 27 / 25, Close = AddrConst ((27 / 25) ^ 11), Max_f = (27 / 25) ^ 10,
           Min_f = 27 / 25, ValueList = [], StartTime = 0, DurationMs = 5000,
           IsComplete = True \<rparr>,
        \<lparr> Open = (27 / 25) ^ 11, Close = AddrConst 0, Max_f = (27 / 25) ^ 11, Min_f = 0,
           ValueList = [], StartTime = 5000, DurationMs = 5000, IsComplete = True \<rparr>]"
    by simp
  with Some p show ?thesis by (simp add: candle_ok_def power_divide)
qed

section \<open>Proofs: candleflip\<close>

lemmas flip_consts = CandleflipStartingPrice_def CandleflipTotalTicks_def CandleflipBigMoveChance_def
  CandleflipBigMovePct_def CandleflipSmallMovePctMin_def CandleflipSmallMovePctMax_def

text \<open>One call on each side: the product of the two prices shrinks.\<close>

lemma GenerateCandleflipPrice_mirror:
  fixes L L' :: lib
  assumes a: "a < length h" "a' < length h'"
    and f: "f = (\<lambda>j. float_at L (src_seed (h ! a)) (drawn (h ! a) + j))"
    and f': "f' = (\<lambda>j. float_at L' (src_seed (h' ! a')) (drawn (h' ! a') + j))"
    and u: "in_unit f"
    and m: "mirrored (Suc k) f f'"
    and p: "0 < p" "0 < p'"
  shows "\<exists>n q q' h1 h1'.
      GenerateCandleflipPrice L a p h = (q, h1) \<and> GenerateCandleflipPrice L' a' p' h' = (q', h1')
      \<and> 0 < q \<and> 0 < q' \<and> q * q' < p * p'
      \<and> a < length h1 \<and> a' < length h1'
      \<and> h1 ! a = (h ! a)\<lparr> drawn := drawn (h ! a) + n \<rparr>
      \<and> h1' ! a' = (h' ! a')\<lparr> drawn := drawn (h' ! a') + n \<rparr>
      \<and> mirrored k (\<lambda>j. f (j + n)) (\<lambda>j. f' (j + n))"
proof (cases "f 0 < CandleflipBigMoveChance")
  case True
  from m True have m0: "f' 0 = f 0" and s: "f' 1 < 0.5 \<longleftrightarrow> \<not> f 1 < 0.5"
    and mk: "mirrored k (\<lambda>j. f (j + 2)) (\<lambda>j. f' (j + 2))" by simp_all
  define c :: real where "c = (if f 1 < 0.5 then - 0.2 else 0.2)"
  have q: "GenerateCandleflipPrice L a p h
      = (p * (1 + c), h[a := (h ! a)\<lparr> drawn := drawn (h ! a) + 2 \<rparr>])"
    using True a p unfolding f c_def
    by (simp add: GenerateCandleflipPrice_def Float64_def Let_def flip_consts mult_pos_pos)
  have q': "GenerateCandleflipPrice L' a' p' h'
      = (p' * (1 - c), h'[a' := (h' ! a')\<lparr> drawn := drawn (h' ! a') + 2 \<rparr>])"
    using True a p m0 s unfolding f f' c_def
    by (simp add: GenerateCandleflipPrice_def Float64_def Let_def flip_consts mult_pos_pos)
  have c2: "(1 + c) * (1 - c) < 1" "0 < 1 + c" "0 < 1 - c" by (simp_all add: c_def)
  have "p * (1 + c) * (p' * (1 - c)) = (p * p') * ((1 + c) * (1 - c))" by (simp add: algebra_simps)
  also have "\<dots> < (p * p') * 1" using c2(1) p by (intro mult_strict_left_mono) simp_all
  finally have lt: "p * (1 + c) * (p' * (1 - c)) < p * p'" by simp
  show ?thesis
    apply (rule exI [of _ 2])
    using q q' lt c2 p a mk by (simp add: mult_pos_pos)
next
  case False
  from m False have m0: "f' 0 = f 0" and m1: "f' 1 = f 1" and s: "f' 2 < 0.5 \<longleftrightarrow> \<not> f 2 < 0.5"
    and mk: "mirrored k (\<lambda>j. f (j + 3)) (\<lambda>j. f' (j + 3))" by simp_all
  define g :: real where "g = 0.01 + f 1 * 0.04"
  from u have "0 \<le> f 1" "f 1 < 1" by (simp_all add: in_unit_def)
  then have g: "0.01 \<le> g" "g < 0.05" by (simp_all add: g_def)
  define c :: real where "c = (if f 2 < 0.5 then - g else g)"
  have q: "GenerateCandleflipPrice L a p h
      = (p * (1 + c), h[a := (h ! a)\<lparr> drawn := drawn (h ! a) + 3 \<rparr>])"
    using False a p g unfolding f c_def g_def
    by (simp add: GenerateCandleflipPrice_def Float64_def Let_def flip_consts mult_pos_pos not_less numeral_3_eq_3)
  have q': "GenerateCandleflipPrice L' a' p' h'
      = (p' * (1 - c), h'[a' := (h' ! a')\<lparr> drawn := drawn (h' ! a') + 3 \<rparr>])"
    using False a p g m0 m1 s unfolding f f' c_def g_def
    by (simp add: GenerateCandleflipPrice_def Float64_def Let_def flip_consts mult_pos_pos not_less numeral_3_eq_3)
  have "c * c = g * g" by (simp add: c_def)
  moreover have "0 < g * g" using g by simp
  ultimately have c2: "(1 + c) * (1 - c) < 1" by (simp add: algebra_simps)
  have cp: "0 < 1 + c" "0 < 1 - c" using g by (simp_all add: c_def)
  have "p * (1 + c) * (p' * (1 - c)) = (p * p') * ((1 + c) * (1 - c))" by (simp add: algebra_simps)
  also have "\<dots> < (p * p') * 1" using c2 p by (intro mult_strict_left_mono) simp_all
  finally have lt: "p * (1 + c) * (p' * (1 - c)) < p * p'" by simp
  show ?thesis
    apply (rule exI [of _ 3])
    using q q' lt cp p a mk by (simp add: mult_pos_pos)
qed


lemma candleflipLoop_mirror:
  assumes "a < length h" "a' < length h'"
    and "\<forall>n. 0 \<le> float_at L (src_seed (h ! a)) n \<and> float_at L (src_seed (h ! a)) n < 1"
    and "mirrored (CandleflipTotalTicks - i)
           (\<lambda>j. float_at L (src_seed (h ! a)) (drawn (h ! a) + j))
           (\<lambda>j. float_at L' (src_seed (h' ! a')) (drawn (h' ! a') + j))"
    and "0 < p" "0 < p'"
  shows "0 < fst (candleflipLoop L a i p h) \<and> 0 < fst (candleflipLoop L' a' i p' h')
     \<and> (if i < CandleflipTotalTicks
         then fst (candleflipLoop L a i p h) * fst (candleflipLoop L' a' i p' h') < p * p'
         else fst (candleflipLoop L a i p h) * fst (candleflipLoop L' a' i p' h') = p * p')"
  using assms
proof (induction L a i p h arbitrary: p' h' rule: candleflipLoop.induct)
  case (1 L a i p h)
  show ?case
  proof (cases "i < CandleflipTotalTicks")
    case False
    then have "candleflipLoop L a i p h = (p, h)" "candleflipLoop L' a' i p' h' = (p', h')"
      by (subst candleflipLoop.simps, simp)+
    with False "1.prems" show ?thesis by simp
  next
    case True
    define f where "f = (\<lambda>j. float_at L (src_seed (h ! a)) (drawn (h ! a) + j))"
    define f' where "f' = (\<lambda>j. float_at L' (src_seed (h' ! a')) (drawn (h' ! a') + j))"
    have u: "in_unit f" using "1.prems"(3) by (simp add: in_unit_def f_def)
    from True have k: "CandleflipTotalTicks - i = Suc (CandleflipTotalTicks - (i + 1))" by simp
    have m: "mirrored (Suc (CandleflipTotalTicks - (i + 1))) f f'"
      using "1.prems"(4) unfolding f_def f'_def k [symmetric] .
    from GenerateCandleflipPrice_mirror [OF "1.prems"(1,2) f_def f'_def u m "1.prems"(5,6)]
    obtain n q q' h1 h1' where
      g: "GenerateCandleflipPrice L a p h = (q, h1)"
         "GenerateCandleflipPrice L' a' p' h' = (q', h1')"
      and pos: "0 < q" "0 < q'" and lt: "q * q' < p * p'"
      and len: "a < length h1" "a' < length h1'"
      and obj: "h1 ! a = (h ! a)\<lparr> drawn := drawn (h ! a) + n \<rparr>"
               "h1' ! a' = (h' ! a')\<lparr> drawn := drawn (h' ! a') + n \<rparr>"
      and mk: "mirrored (CandleflipTotalTicks - (i + 1)) (\<lambda>j. f (j + n)) (\<lambda>j. f' (j + n))"
      by blast
    have eq: "candleflipLoop L a i p h = candleflipLoop L a (i + 1) q h1"
      "candleflipLoop L' a' i p' h' = candleflipLoop L' a' (i + 1) q' h1'"
      using True g by (subst candleflipLoop.simps, simp)+
    have u1: "\<forall>n. 0 \<le> float_at L (src_seed (h1 ! a)) n \<and> float_at L (src_seed (h1 ! a)) n < 1"
      using "1.prems"(3) by (simp add: obj)
    have m1: "mirrored (CandleflipTotalTicks - (i + 1))
           (\<lambda>j. float_at L (src_seed (h1 ! a)) (drawn (h1 ! a) + j))
           (\<lambda>j. float_at L' (src_seed (h1' ! a')) (drawn (h1' ! a') + j))"
      using mk by (simp add: obj f_def f'_def ac_simps)
    from "1.IH" [OF True g(1) [symmetric] len u1 m1 pos]
    have IH: "0 < fst (candleflipLoop L a (i + 1) q h1)"
      "0 < fst (candleflipLoop L' a' (i + 1) q' h1')"
      "fst (candleflipLoop L a (i + 1) q h1) * fst (candleflipLoop L' a' (i + 1) q' h1') \<le> q * q'"
      by (auto split: if_splits)
    with lt True show ?thesis unfolding eq by simp
  qed
qed

lemma candleflip_green_mirrors_red:
  assumes key: "k = BigEndian_Uint64 (take 8 (sha256_sum L (serverSeed @ ''-candleflip'')))"
    and digest: "sha256_sum L' (serverSeed @ ''-candleflip'') = sha256_sum L (serverSeed @ ''-candleflip'')"
    and unit: "\<forall>n. 0 \<le> float_at L k n \<and> float_at L k n < 1"
    and mir: "mirrored CandleflipTotalTicks (float_at L k) (float_at L' k)"
    and green: "fst (VerifyCandleflip L serverSeed h) = ''GREEN''"
  shows "fst (VerifyCandleflip L' serverSeed h') = ''RED''"
proof -
  let ?h = "h @ [\<lparr> src_seed = k, drawn = 0 \<rparr>]" and ?h' = "h' @ [\<lparr> src_seed = k, drawn = 0 \<rparr>]"
  define q where "q = fst (candleflipLoop L (length h) 0 CandleflipStartingPrice ?h)"
  define q' where "q' = fst (candleflipLoop L' (length h') 0 CandleflipStartingPrice ?h')"
  have v: "fst (VerifyCandleflip L serverSeed h) = (if q < 1 then ''RED'' else ''GREEN'')"
    by (simp add: VerifyCandleflip_def NewSeededRNG_def Let_def split_def key q_def)
  have v': "fst (VerifyCandleflip L' serverSeed h') = (if q' < 1 then ''RED'' else ''GREEN'')"
    by (simp add: VerifyCandleflip_def NewSeededRNG_def Let_def split_def key digest q'_def)
  have "0 < q \<and> 0 < q' \<and> q * q' < 1"
    using candleflipLoop_mirror [of "length h" ?h "length h'" ?h' L 0 L' 1 1] unit mir
    by (simp add: q_def q'_def CandleflipStartingPrice_def CandleflipTotalTicks_def)
  moreover from green v have "1 \<le> q" by (simp split: if_splits)
  ultimately have "q' < 1"
  proof -
    assume q: "0 < q \<and> 0 < q' \<and> q * q' < 1" and ge: "1 \<le> q"
    show ?thesis
    proof (rule ccontr)
      assume "\<not> q' < 1"
      then have "1 \<le> q'" by simp
      with ge have "1 * 1 \<le> q * q'" by (intro mult_mono) simp_all
      with q show False by simp
    qed
  qed
  with v' show ?thesis by simp
qed

lemma VerifyCandleflip_winner:
  "fst (VerifyCandleflip L serverSeed h)
     = (if fst (candleflipLoop L (length h) 0 CandleflipStartingPrice
             (snd (NewSeededRNG L (serverSeed @ ''-candleflip'') h))) < 1
        then ''RED'' else ''GREEN'')"
  by (simp add: VerifyCandleflip_def NewSeededRNG_def Let_def split_def)

lemma be14: "BigEndian_Uint64 (replicate 8 14) = 0x0E0E0E0E0E0E0E0E"
  by (simp add: BigEndian_Uint64_def)

lemma demo_flip_down_up:
  "fst (VerifyCandleflip (demo_lib (\<lambda>n. 0) (cyclic [0.5, 0.5, 0.2, 0.5, 0.5, 0.7] 120))
       ''abc'' []) = ''RED''"
  by (simp add: VerifyCandleflip_def NewSeededRNG_def Let_def demo_lib_def be14 cyclic_def
      candleflipLoop.simps GenerateCandleflipPrice_def Float64_def flip_consts)

lemma demo_flip_up_down:
  "fst (VerifyCandleflip (demo_lib (\<lambda>n. 0) (cyclic [0.5, 0.5, 0.7, 0.5, 0.5, 0.2] 120))
       ''abc'' []) = ''RED''"
  by (simp add: VerifyCandleflip_def NewSeededRNG_def Let_def demo_lib_def be14 cyclic_def
      candleflipLoop.simps GenerateCandleflipPrice_def Float64_def flip_consts)

lemma mirrored_numeral:
  "mirrored (numeral k) f f' \<longleftrightarrow>
     f' 0 = f 0 \<and>
     (if f 0 < CandleflipBigMoveChance
      then (f' 1 < 0.5 \<longleftrightarrow> \<not> f 1 < 0.5)
           \<and> mirrored (pred_numeral k) (\<lambda>j. f (j + 2)) (\<lambda>j. f' (j + 2))
      else f' 1 = f 1 \<and> (f' 2 < 0.5 \<longleftrightarrow> \<not> f 2 < 0.5)
           \<and> mirrored (pred_numeral k) (\<lambda>j. f (j + 3)) (\<lambda>j. f' (j + 3)))"
  by (simp add: numeral_eq_Suc)

lemma demo_flip_mirrored:
  "mirrored CandleflipTotalTicks (cyclic [0.5, 0.5, 0.7, 0.5, 0.5, 0.2] 120)
     (cyclic [0.5, 0.5, 0.2, 0.5, 0.5, 0.7] 120)"
  by (simp add: CandleflipTotalTicks_def mirrored_numeral cyclic_def flip_consts)

text \<open>
  C4. At every tick the sign is drawn against \<open>0.5\<close> in both branches, and the winner is
  GREEN exactly when the price after the 40 ticks is at least \<open>1\<close>
  (\<open>VerifyCandleflip_winner\<close>). The game is nevertheless not symmetric between the two
  colours. A move \<open>+c\<close> and the move \<open>-c\<close> multiply to \<open>1 - c\<^sup>2 < 1\<close>, so when every sign
  of a game is reversed the product of the two final prices is below \<open>1\<close>: the reverse of
  a GREEN game is always RED (\<open>candleflip_green_mirrors_red\<close>), but the reverse of a RED
  game can be RED again. Here is such a pair: forty small moves of 3 percent,
  alternately up and down in one game and down and up in the other; both end at
  \<open>(1.03 * 0.97) ^ 20 < 1\<close>, and RED wins both.
\<close>

theorem candleflip_red_for_both_signs:
  "fst (VerifyCandleflip (demo_lib (\<lambda>n. 0) (cyclic [0.5, 0.5, 0.7, 0.5, 0.5, 0.2] 120))
       ''abc'' []) = ''RED''
   \<and> fst (VerifyCandleflip (demo_lib (\<lambda>n. 0) (cyclic [0.5, 0.5, 0.2, 0.5, 0.5, 0.7] 120))
       ''abc'' []) = ''RED''
   \<and> mirrored CandleflipTotalTicks (cyclic [0.5, 0.5, 0.7, 0.5, 0.5, 0.2] 120)
       (cyclic [0.5, 0.5, 0.2, 0.5, 0.5, 0.7] 120)"
  using demo_flip_up_down demo_flip_down_up demo_flip_mirrored by simp

section \<open>Proofs: the hub, chat history on subscribe\<close>














































lemma recv_idle:
  "step (Recv i type data now) s = Inr s' \<Longrightarrow> todo (clients s ! i) = []"
  by (simp split: if_splits)



















section \<open>Proofs: the cashout handler\<close>

lemma RemoveActiveBettor_status:
  "RemoveActiveBettor a (s\<lparr> crashStatus := st \<rparr>) = (RemoveActiveBettor a s)\<lparr> crashStatus := st \<rparr>"
  "RemoveActiveBettor a (s\<lparr> crashStatus := st, effects := e \<rparr>)
     = (RemoveActiveBettor a (s\<lparr> effects := e \<rparr>))\<lparr> crashStatus := st \<rparr>"
  by (simp_all add: RemoveActiveBettor_def Let_def)

lemma sendPrivateMessage_status:
  "sendPrivateMessage i u m (s\<lparr> crashStatus := st \<rparr>)
     = (sendPrivateMessage i u m s)\<lparr> crashStatus := st \<rparr>"
  by (simp add: sendPrivateMessage_def setTodo_def split: option.splits)

lemma handleCrashCashout_ignores_game_state:
  "handleCrashCashout i data (s\<lparr> crashStatus := st \<rparr>)
     = (case handleCrashCashout i data s of Inl e \<Rightarrow> Inl e
        | Inr s' \<Rightarrow> Inr (s'\<lparr> crashStatus := st \<rparr>))"
  by (cases "assertString data ''playerAddress''"; cases "assertString data ''userId''";
      cases "assertString data ''gameId''"; cases "assertFloat data ''cashoutMultiplier''";
      cases "assertFloat data ''betAmount''"; cases "assertFloat data ''entryMultiplier''")
    (simp_all add: handleCrashCashout_def Let_def RemoveActiveBettor_status
      sendPrivateMessage_status split: sum.splits)

lemma floor_log2:
  assumes "2 powi e \<le> \<bar>x\<bar>" "\<bar>x\<bar> < 2 powi (e + 1)"
  shows "\<lfloor>log 2 \<bar>x\<bar>\<rfloor> = e"
proof -
  have "(0::real) < 2 powi e" by simp
  with assms(1) have pos: "0 < \<bar>x\<bar>" by linarith
  have "real_of_int e \<le> log 2 \<bar>x\<bar>"
    using assms(1) pos by (simp add: le_log_iff powr_real_of_int')
  moreover have "log 2 \<bar>x\<bar> < real_of_int (e + 1)"
    using assms(2) pos powr_real_of_int' [of 2 "e + 1"] by (simp add: log_less_iff)
  ultimately show ?thesis by linarith
qed

lemma quantum_eq:
  assumes "2 powi (e + 52) \<le> \<bar>x\<bar>" "\<bar>x\<bar> < 2 powi (e + 53)" "- 1074 \<le> e"
  shows "quantum x = e"
  using floor_log2 [of "e + 52" x] assms by (simp add: quantum_def add.commute)

lemma demo_floats:
  "fsub (Finite 2) (Finite 1) = Finite 1"
  "fmul (Finite 10) (Finite 1) = Finite 10"
  "fadd (Finite 10) (Finite 10) = Finite 20"
  "fsub (Finite 3) (Finite 1) = Finite 2"
  using quantum_eq [of "-52" 1] quantum_eq [of "-49" 10] quantum_eq [of "-48" 20]
    quantum_eq [of "-51" 2]
  by (simp_all add: fsub_def fadd_def fmul_def round64_def rne_def Let_def power_int_minus)

lemma demo_overflow:
  "fmul (Finite demo_bet) (Finite 2) = PosInf"
  "fadd (Finite demo_bet) PosInf = PosInf"
  using quantum_eq [of "972" "2 ^ 1024"]
  by (simp_all add: fmul_def fadd_def round64_def rne_def Let_def power_int_minus demo_bet_def)

lemma demo_cashout_fields:
  "assertString (demo_cashout uid cm bet) ''playerAddress'' = Inr ''0xA''"
  "assertString (demo_cashout uid cm bet) ''userId'' = Inr uid"
  "assertString (demo_cashout uid cm bet) ''gameId'' = Inr ''1700000000''"
  "assertFloat (demo_cashout uid cm bet) ''cashoutMultiplier'' = Inr cm"
  "assertFloat (demo_cashout uid cm bet) ''betAmount'' = Inr bet"
  "assertFloat (demo_cashout uid cm bet) ''entryMultiplier'' = Inr (Finite 1)"
  by (simp_all add: assertString_def assertFloat_def demo_cashout_def)

lemma demo_cashout_run:
  "handleCrashCashout 0 (demo_cashout uid cm bet) demo_hub
     = Inr (sendPrivateMessage 0 uid
         (CrashCashoutResult True cm (Finite 1) bet (fadd bet (fmul bet (fsub cm (Finite 1))))
            (fmul bet (fsub cm (Finite 1))))
         (demo_hub\<lparr> effects :=
            [UpdateCrashBetCashout ''1700000000'' ''0xA'' cm
               (fadd bet (fmul bet (fsub cm (Finite 1)))) [],
             AddWalletPnL ''0xA'' (fadd bet (fmul bet (fsub cm (Finite 1))))] \<rparr>))"
  unfolding handleCrashCashout_def demo_cashout_fields sum.case Let_def
  by (simp add: RemoveActiveBettor_def demo_hub_def)

text \<open>
  C10. The payout is computed from the numbers of the message, and the state of the
  game is not read (\<open>handleCrashCashout_ignores_game_state\<close>); but a result message is
  not always sent to the requesting user. \<^verbatim>\<open>sendPrivateMessage\<close> does not use the
  connection that sent the request: it looks for a registered client whose \<^verbatim>\<open>ID\<close> equals
  the \<open>userId\<close> of the message, and the \<^verbatim>\<open>ID\<close> of a connection is made by the server. In
  the hub of two clients, the first client (with the \<^verbatim>\<open>ID\<close> \<open>1700000000-1\<close>) sends a
  cashout of the bet 10 at the multiplier 2:
  \<^item> with the \<open>userId\<close> \<open>alice\<close> the payout 20 is booked, the call returns, and no client
    has been sent anything;
  \<^item> with the \<open>userId\<close> \<open>1700000000-2\<close> the result message goes on the channel of the second
    client, and the first client is sent nothing;
  \<^item> with its own \<^verbatim>\<open>ID\<close> as \<open>userId\<close>, the bet \<open>2 ^ 1023\<close> and the multiplier 3, the profit
    overflows to the positive infinity, which \<^verbatim>\<open>json.Marshal\<close> refuses: the infinite payout
    is booked and no result message is sent;
  \<^item> a message without the field \<open>userId\<close> makes the handler panic.
\<close>

theorem cashout_reply_not_sent_to_requester:
  "ID (clients demo_hub ! 0) = ''1700000000-1''
   \<and> run [Recv 0 ''crash_cashout'' (demo_cashout ''alice'' (Finite 2) (Finite 10)) ''t9'']
        demo_hub
       = Inr (demo_hub\<lparr> effects :=
            [UpdateCrashBetCashout ''1700000000'' ''0xA'' (Finite 2) (Finite 20) [],
             AddWalletPnL ''0xA'' (Finite 20)] \<rparr>)
   \<and> run [Recv 0 ''crash_cashout'' (demo_cashout ''1700000000-2'' (Finite 2) (Finite 10)) ''t9'',
           Cont 0] demo_hub
       = Inr (demo_hub\<lparr> clients :=
            [demo_client ''1700000000-1'',
             (demo_client ''1700000000-2'')
               \<lparr> Send := [CrashCashoutResult True (Finite 2) (Finite 1) (Finite 10) (Finite 20)
                            (Finite 10)] \<rparr>],
            effects :=
            [UpdateCrashBetCashout ''1700000000'' ''0xA'' (Finite 2) (Finite 20) [],
             AddWalletPnL ''0xA'' (Finite 20)] \<rparr>)
   \<and> run [Recv 0 ''crash_cashout''
             (demo_cashout ''1700000000-1'' (Finite 3) (Finite demo_bet)) ''t9''] demo_hub
       = Inr (demo_hub\<lparr> effects :=
            [UpdateCrashBetCashout ''1700000000'' ''0xA'' (Finite 3) PosInf [],
             AddWalletPnL ''0xA'' PosInf] \<rparr>)
   \<and> run [Recv 0 ''crash_cashout'' (map_of [(''playerAddress'', JString ''0xA'')]) ''t9'']
        demo_hub = Inl Panic"
proof -
  have idle: "\<not> 0 \<ge> length (clients demo_hub)" "todo (clients demo_hub ! 0) = []"
    by (simp_all add: demo_hub_def demo_client_def)
  have a: "run [Recv 0 ''crash_cashout'' (demo_cashout ''alice'' (Finite 2) (Finite 10)) ''t9'']
        demo_hub
       = Inr (demo_hub\<lparr> effects :=
            [UpdateCrashBetCashout ''1700000000'' ''0xA'' (Finite 2) (Finite 20) [],
             AddWalletPnL ''0xA'' (Finite 20)] \<rparr>)"
    using idle by (simp add: handleMessage_def demo_cashout_run demo_floats)
      (simp add: sendPrivateMessage_def demo_hub_def demo_client_def)
  have b: "run [Recv 0 ''crash_cashout'' (demo_cashout ''1700000000-2'' (Finite 2) (Finite 10)) ''t9'',
           Cont 0] demo_hub
       = Inr (demo_hub\<lparr> clients :=
            [demo_client ''1700000000-1'',
             (demo_client ''1700000000-2'')
               \<lparr> Send := [CrashCashoutResult True (Finite 2) (Finite 1) (Finite 10) (Finite 20)
                            (Finite 10)] \<rparr>],
            effects :=
            [UpdateCrashBetCashout ''1700000000'' ''0xA'' (Finite 2) (Finite 20) [],
             AddWalletPnL ''0xA'' (Finite 20)] \<rparr>)"
    using idle by (simp add: handleMessage_def demo_cashout_run demo_floats)
      (simp add: sendPrivateMessage_def demo_hub_def demo_client_def continue_def sendOn_def
        setTodo_def SendCapacity_def)
  have c: "run [Recv 0 ''crash_cashout''
             (demo_cashout ''1700000000-1'' (Finite 3) (Finite demo_bet)) ''t9''] demo_hub
       = Inr (demo_hub\<lparr> effects :=
            [UpdateCrashBetCashout ''1700000000'' ''0xA'' (Finite 3) PosInf [],
             AddWalletPnL ''0xA'' PosInf] \<rparr>)"
    using idle by (simp add: handleMessage_def demo_cashout_run demo_floats demo_overflow)
      (simp add: sendPrivateMessage_def demo_hub_def demo_client_def)
  have d: "run [Recv 0 ''crash_cashout'' (map_of [(''playerAddress'', JString ''0xA'')]) ''t9'']
        demo_hub = Inl Panic"
    using idle by (simp add: handleMessage_def handleCrashCashout_def assertString_def)
  have e: "ID (clients demo_hub ! 0) = ''1700000000-1''"
    by (simp add: demo_hub_def demo_client_def)
  from a b c d e show ?thesis by blast
qed

end
